theory Spec2Isabelle
  imports Complex_Main
begin

section \<open>The tensor operations the notebooks call\<close>

text \<open>
  The notebooks compute on the framework's \<open>NDArray\<close>: a shape and a block of numbers in
  row-major order. The numbers are modelled as reals, so \<open>sqrt\<close> and division are the exact,
  total operations of the reals and the rounding of 32-bit floats is left out: what is
  proved is which formula the code computes, not what 32-bit arithmetic makes of it (a
  positive \<open>eps\<close> below the range of 32-bit floats is 0 in the code and positive here).
  Every dimension of an array is positive (the framework of the notebooks reads a zero
  dimension as "unknown").
\<close>

datatype ndarray = NDArray (shape: "nat list") (data: "real list")

text \<open>
  Two kinds of failure can leave \<open>batch_norm\<close>: the \<open>assert\<close> statement written in the
  notebook (Python's \<open>AssertionError\<close>) and an error raised inside the framework
  (\<open>MXNetError\<close>, here for operands whose shapes cannot be broadcast together).
\<close>

datatype error = AssertionError | MXNetError

definition wf_nd :: "ndarray \<Rightarrow> bool" where
  "wf_nd a = (length (data a) = prod_list (shape a) \<and> list_all (\<lambda>n. 0 < n) (shape a))"

text \<open>All multi-indices of a shape, in row-major order.\<close>

fun indices :: "nat list \<Rightarrow> nat list list" where
  "indices [] = [[]]"
| "indices (n # ns) = concat (map (\<lambda>i. map ((#) i) (indices ns)) [0..<n])"

text \<open>The position of a multi-index in the row-major block.\<close>

fun ravel :: "nat list \<Rightarrow> nat list \<Rightarrow> nat" where
  "ravel (n # ns) (i # is) = i * prod_list ns + ravel ns is"
| "ravel _ _ = 0"

definition valid_index :: "nat list \<Rightarrow> nat list \<Rightarrow> bool" where
  "valid_index s idx = list_all2 (\<lambda>i n. i < n) idx s"

definition nd_at :: "ndarray \<Rightarrow> nat list \<Rightarrow> real" where
  "nd_at a idx = data a ! ravel (shape a) idx"

definition tabulate :: "nat list \<Rightarrow> (nat list \<Rightarrow> real) \<Rightarrow> ndarray" where
  "tabulate s f = NDArray s (map f (indices s))"

text \<open>
  Broadcasting, as the framework's binary operators do it: the shapes are aligned at their
  last dimension, the shorter one is padded with 1s in front, and two dimensions are
  compatible when they are equal or one of them is 1.
\<close>

definition pad_shape :: "nat \<Rightarrow> nat list \<Rightarrow> nat list" where
  "pad_shape r s = replicate (r - length s) 1 @ s"

fun join_shapes :: "nat list \<Rightarrow> nat list \<Rightarrow> nat list option" where
  "join_shapes [] [] = Some []"
| "join_shapes (l # ls) (r # rs) =
     (if l = r \<or> r = 1 then map_option ((#) l) (join_shapes ls rs)
      else if l = 1 then map_option ((#) r) (join_shapes ls rs)
      else None)"
| "join_shapes _ _ = None"

definition broadcast_shape :: "nat list \<Rightarrow> nat list \<Rightarrow> nat list option" where
  "broadcast_shape s t =
     (let r = max (length s) (length t) in join_shapes (pad_shape r s) (pad_shape r t))"

text \<open>The index of the operand's entry that lands at index \<open>idx\<close> of the broadcast result.\<close>

definition bidx :: "nat list \<Rightarrow> nat list \<Rightarrow> nat list" where
  "bidx s idx = map2 (\<lambda>n i. if n = 1 then 0 else i) s (drop (length idx - length s) idx)"

definition broadcast_op ::
  "(real \<Rightarrow> real \<Rightarrow> real) \<Rightarrow> ndarray \<Rightarrow> ndarray \<Rightarrow> error + ndarray" where
  "broadcast_op f a b =
     (case broadcast_shape (shape a) (shape b) of
        None \<Rightarrow> Inl MXNetError
      | Some s \<Rightarrow>
          Inr (tabulate s (\<lambda>idx. f (nd_at a (bidx (shape a) idx)) (nd_at b (bidx (shape b) idx)))))"

definition nd_add :: "ndarray \<Rightarrow> ndarray \<Rightarrow> error + ndarray" where
  "nd_add = broadcast_op (+)"

definition nd_sub :: "ndarray \<Rightarrow> ndarray \<Rightarrow> error + ndarray" where
  "nd_sub = broadcast_op (-)"

definition nd_mul :: "ndarray \<Rightarrow> ndarray \<Rightarrow> error + ndarray" where
  "nd_mul = broadcast_op (*)"

definition nd_div :: "ndarray \<Rightarrow> ndarray \<Rightarrow> error + ndarray" where
  "nd_div = broadcast_op (/)"

text \<open>Operations of an array with a Python scalar, and element-wise functions.\<close>

definition nd_map :: "(real \<Rightarrow> real) \<Rightarrow> ndarray \<Rightarrow> ndarray" where
  "nd_map f a = NDArray (shape a) (map f (data a))"

definition nd_plus_scalar :: "ndarray \<Rightarrow> real \<Rightarrow> ndarray" where
  "nd_plus_scalar a c = nd_map (\<lambda>x. x + c) a"

definition nd_mul_scalar :: "real \<Rightarrow> ndarray \<Rightarrow> ndarray" where
  "nd_mul_scalar c a = nd_map (\<lambda>x. c * x) a"

definition nd_power_scalar :: "ndarray \<Rightarrow> nat \<Rightarrow> ndarray" where
  "nd_power_scalar a k = nd_map (\<lambda>x. x ^ k) a"

definition nd_sqrt :: "ndarray \<Rightarrow> ndarray" where
  "nd_sqrt a = nd_map sqrt a"

text \<open>
  \<open>a.mean(axis=axes, keepdims=keepdims)\<close>: the reduced axes disappear from the shape, or
  stay with length 1 when \<open>keepdims\<close> is set. An entry of the result is the mean of the
  entries of \<open>a\<close> whose index agrees with it on the axes that are kept.
\<close>

definition reduced_shape :: "nat list \<Rightarrow> bool \<Rightarrow> nat list \<Rightarrow> nat list" where
  "reduced_shape axes keepdims s =
     (if keepdims then map (\<lambda>k. if k \<in> set axes then 1 else s ! k) [0..<length s]
      else map ((!) s) (filter (\<lambda>k. k \<notin> set axes) [0..<length s]))"

definition reduced_index :: "nat list \<Rightarrow> bool \<Rightarrow> nat list \<Rightarrow> nat list" where
  "reduced_index axes keepdims idx =
     (if keepdims then map (\<lambda>k. if k \<in> set axes then 0 else idx ! k) [0..<length idx]
      else map ((!) idx) (filter (\<lambda>k. k \<notin> set axes) [0..<length idx]))"

definition nd_mean :: "nat list \<Rightarrow> bool \<Rightarrow> ndarray \<Rightarrow> ndarray" where
  "nd_mean axes keepdims a =
     tabulate (reduced_shape axes keepdims (shape a))
       (\<lambda>oidx. sum_list (map (nd_at a)
                  (filter (\<lambda>idx. reduced_index axes keepdims idx = oidx) (indices (shape a))))
               / real (prod_list (map ((!) (shape a)) axes)))"

definition nd_ones :: "nat list \<Rightarrow> ndarray" where
  "nd_ones s = NDArray s (replicate (prod_list s) 1)"

definition nd_zeros :: "nat list \<Rightarrow> ndarray" where
  "nd_zeros s = NDArray s (replicate (prod_list s) 0)"

section \<open>Batch normalization (batch-norm.ipynb)\<close>

text \<open>
  \<open>batch_norm\<close>, line by line. \<open>autograd.is_training()\<close> is the first argument. The scalars
  \<open>eps\<close> and \<open>momentum\<close> are Python floats. The axes of the two \<open>mean\<close> calls exist in the
  array they are applied to (rank 2, rank 4), so \<open>mean\<close> cannot fail there.
\<close>

definition bind :: "error + 'a \<Rightarrow> ('a \<Rightarrow> error + 'b) \<Rightarrow> error + 'b" where
  "bind m f = (case m of Inl e \<Rightarrow> Inl e | Inr v \<Rightarrow> f v)"

definition batch_norm ::
  "bool \<Rightarrow> ndarray \<Rightarrow> ndarray \<Rightarrow> ndarray \<Rightarrow> ndarray \<Rightarrow> ndarray \<Rightarrow> real \<Rightarrow> real
     \<Rightarrow> error + (ndarray \<times> ndarray \<times> ndarray)" where
  "batch_norm training X gamma beta moving_mean moving_var eps momentum =
     (if \<not> training then
        bind (nd_sub X moving_mean) (\<lambda>centered.
        bind (nd_div centered (nd_sqrt (nd_plus_scalar moving_var eps))) (\<lambda>X_hat.
        bind (nd_mul gamma X_hat) (\<lambda>scaled.
        bind (nd_add scaled beta) (\<lambda>Y.
        Inr (Y, moving_mean, moving_var)))))
      else if length (shape X) \<noteq> 2 \<and> length (shape X) \<noteq> 4 then Inl AssertionError
      else
        bind (if length (shape X) = 2 then
                (let mean = nd_mean [0] False X in
                 bind (nd_sub X mean) (\<lambda>dev.
                 Inr (mean, nd_mean [0] False (nd_power_scalar dev 2))))
              else
                (let mean = nd_mean [0, 2, 3] True X in
                 bind (nd_sub X mean) (\<lambda>dev.
                 Inr (mean, nd_mean [0, 2, 3] True (nd_power_scalar dev 2)))))
          (\<lambda>(mean, var).
        bind (nd_sub X mean) (\<lambda>centered.
        bind (nd_div centered (nd_sqrt (nd_plus_scalar var eps))) (\<lambda>X_hat.
        bind (nd_add (nd_mul_scalar momentum moving_mean) (nd_mul_scalar (1 - momentum) mean))
          (\<lambda>moving_mean'.
        bind (nd_add (nd_mul_scalar momentum moving_var) (nd_mul_scalar (1 - momentum) var))
          (\<lambda>moving_var'.
        bind (nd_mul gamma X_hat) (\<lambda>scaled.
        bind (nd_add scaled beta) (\<lambda>Y.
        Inr (Y, moving_mean', moving_var')))))))))"


text \<open>
  The layer \<open>BatchNorm\<close>. A parameter declared with \<open>init.One()\<close> or \<open>init.Zero()\<close> holds
  ones or zeros once it is initialized, and \<open>data()\<close> reads it. \<open>forward\<close> first copies the
  moving averages to the device of \<open>X\<close>, which leaves their values as they are and is not
  modelled. When \<open>batch_norm\<close> raises, the assignment of \<open>forward\<close> does not happen.
\<close>

record BatchNorm =
  gamma :: ndarray
  beta :: ndarray
  moving_mean :: ndarray
  moving_var :: ndarray

definition BatchNorm_init :: "nat \<Rightarrow> int \<Rightarrow> BatchNorm" where
  "BatchNorm_init num_features num_dims =
     (let shp = (if num_dims = 2 then [1, num_features] else [1, num_features, 1, 1])
      in \<lparr>gamma = nd_ones shp, beta = nd_zeros shp,
          moving_mean = nd_zeros shp, moving_var = nd_zeros shp\<rparr>)"

definition BatchNorm_forward :: "bool \<Rightarrow> BatchNorm \<Rightarrow> ndarray \<Rightarrow> error + (ndarray \<times> BatchNorm)" where
  "BatchNorm_forward training self X =
     (case batch_norm training X (gamma self) (beta self) (moving_mean self) (moving_var self)
             (1 / 100000) (9 / 10) of
        Inl e \<Rightarrow> Inl e
      | Inr (Y, mm, mv) \<Rightarrow> Inr (Y, self\<lparr>moving_mean := mm, moving_var := mv\<rparr>))"

section \<open>Network blocks (vgg.ipynb, nin.ipynb)\<close>

text \<open>
  A layer object is the constructor it was built with and its arguments, the omitted ones
  at the framework's defaults (\<open>strides\<close> 1, \<open>padding\<close> 0, no activation). An integer
  kernel size, stride or padding stands for that value in both dimensions.
\<close>

datatype layer =
    Conv2D (channels: int) (kernel_size: int) (strides: int) (padding: int)
      (activation: "string option")
  | MaxPool2D (pool_size: int) (pool_strides: int)
  | Dense (units: int) (dense_activation: "string option")
  | Dropout (rate: real)
  | Sequential (children: "layer list")

text \<open>
  The call \<open>nn.Conv2D(channels, kernel_size, strides, padding, activation=...)\<close>. The
  framework infers the shape of the weight while it builds the layer and raises its own
  error when it rejects the arguments: a number of channels that is not positive or does
  not fit 31 bits, and a kernel size or a stride that is not positive. Only then is there
  no layer. The other constructors are called in the notebooks with fixed arguments that
  the framework accepts (\<open>MaxPool2D(pool_size=2, strides=2)\<close>, \<open>Dense(4096)\<close>,
  \<open>Dense(10)\<close>, \<open>Dropout(0.5)\<close>), as are \<open>nn.Sequential()\<close> and \<open>add\<close>.
\<close>

definition nn_Conv2D :: "int \<Rightarrow> int \<Rightarrow> int \<Rightarrow> int \<Rightarrow> string option \<Rightarrow> error + layer" where
  "nn_Conv2D num_channels ksize strd pad act =
     (if 0 < num_channels \<and> num_channels < 2 ^ 31 \<and> 0 < ksize \<and> 0 < strd
      then Inr (Conv2D num_channels ksize strd pad act)
      else Inl MXNetError)"







section \<open>Reference definitions\<close>

text \<open>
  The per-feature statistics of a 2-D batch \<open>X\<close> of shape \<open>(n, d)\<close>: the mean of column \<open>j\<close>
  over the batch axis, and the mean of the squared deviations from it.
\<close>

definition batch_mean_2d :: "ndarray \<Rightarrow> nat \<Rightarrow> real" where
  "batch_mean_2d X j = (\<Sum>i<shape X ! 0. nd_at X [i, j]) / real (shape X ! 0)"

definition batch_var_2d :: "ndarray \<Rightarrow> nat \<Rightarrow> real" where
  "batch_var_2d X j =
     (\<Sum>i<shape X ! 0. (nd_at X [i, j] - batch_mean_2d X j) ^ 2) / real (shape X ! 0)"

text \<open>
  The per-channel statistics of a 4-D batch \<open>X\<close> of shape \<open>(n, c, h, w)\<close>: the mean of
  channel \<open>k\<close> over the batch axis and both spatial axes.
\<close>

definition batch_mean_4d :: "ndarray \<Rightarrow> nat \<Rightarrow> real" where
  "batch_mean_4d X k =
     (\<Sum>i<shape X ! 0. \<Sum>y<shape X ! 2. \<Sum>x<shape X ! 3. nd_at X [i, k, y, x])
     / real (shape X ! 0 * shape X ! 2 * shape X ! 3)"

definition batch_var_4d :: "ndarray \<Rightarrow> nat \<Rightarrow> real" where
  "batch_var_4d X k =
     (\<Sum>i<shape X ! 0. \<Sum>y<shape X ! 2. \<Sum>x<shape X ! 3.
        (nd_at X [i, k, y, x] - batch_mean_4d X k) ^ 2)
     / real (shape X ! 0 * shape X ! 2 * shape X ! 3)"

text \<open>
  The same statistics as arrays of the shape \<open>batch_norm\<close> computes them in, \<open>(d)\<close> for a
  2-D and \<open>(1, c, 1, 1)\<close> for a 4-D input, and the standardized input
  \<open>X_hat = (X - mean) / sqrt(var + eps)\<close>, entry by entry.
\<close>

definition mean_array_2d :: "ndarray \<Rightarrow> ndarray" where
  "mean_array_2d X = tabulate [shape X ! 1] (\<lambda>idx. batch_mean_2d X (idx ! 0))"

definition var_array_2d :: "ndarray \<Rightarrow> ndarray" where
  "var_array_2d X = tabulate [shape X ! 1] (\<lambda>idx. batch_var_2d X (idx ! 0))"

definition standardized_2d :: "ndarray \<Rightarrow> real \<Rightarrow> ndarray" where
  "standardized_2d X eps =
     tabulate (shape X)
       (\<lambda>idx. (nd_at X idx - batch_mean_2d X (idx ! 1)) / sqrt (batch_var_2d X (idx ! 1) + eps))"

definition mean_array_4d :: "ndarray \<Rightarrow> ndarray" where
  "mean_array_4d X = tabulate [1, shape X ! 1, 1, 1] (\<lambda>idx. batch_mean_4d X (idx ! 1))"

definition var_array_4d :: "ndarray \<Rightarrow> ndarray" where
  "var_array_4d X = tabulate [1, shape X ! 1, 1, 1] (\<lambda>idx. batch_var_4d X (idx ! 1))"

definition standardized_4d :: "ndarray \<Rightarrow> real \<Rightarrow> ndarray" where
  "standardized_4d X eps =
     tabulate (shape X)
       (\<lambda>idx. (nd_at X idx - batch_mean_4d X (idx ! 1)) / sqrt (batch_var_4d X (idx ! 1) + eps))"

text \<open>
  The update of a moving average,
  \<open>momentum * moving + (1.0 - momentum) * statistic\<close>.
\<close>

definition moving_update :: "real \<Rightarrow> ndarray \<Rightarrow> ndarray \<Rightarrow> error + ndarray" where
  "moving_update momentum moving stat =
     nd_add (nd_mul_scalar momentum moving) (nd_mul_scalar (1 - momentum) stat)"

text \<open>The scale-and-shift step \<open>gamma * X_hat + beta\<close>.\<close>

definition scale_shift :: "ndarray \<Rightarrow> ndarray \<Rightarrow> ndarray \<Rightarrow> error + ndarray" where
  "scale_shift gam bet X_hat = bind (nd_mul gam X_hat) (\<lambda>scaled. nd_add scaled bet)"

text \<open>
  Standardization with given statistics, \<open>(X - mean) / sqrt(var + eps)\<close>, on arrays.
\<close>

definition standardize :: "ndarray \<Rightarrow> ndarray \<Rightarrow> ndarray \<Rightarrow> real \<Rightarrow> error + ndarray" where
  "standardize X mean var eps =
     bind (nd_sub X mean) (\<lambda>centered. nd_div centered (nd_sqrt (nd_plus_scalar var eps)))"

text \<open>
  Batch normalization with the statistics taken over the batch axis (axis 0) alone, kept
  with length 1 so that they broadcast against \<open>X\<close>: for comparison with what
  \<open>batch_norm\<close> does on a 4-D input.
\<close>

definition axis0_only_batch_norm :: "ndarray \<Rightarrow> ndarray \<Rightarrow> ndarray \<Rightarrow> real \<Rightarrow> error + ndarray" where
  "axis0_only_batch_norm X gam bet eps =
     (let mean = nd_mean [0] True X in
      bind (nd_sub X mean) (\<lambda>dev.
      let var = nd_mean [0] True (nd_power_scalar dev 2) in
      bind (nd_div dev (nd_sqrt (nd_plus_scalar var eps))) (\<lambda>X_hat.
      scale_shift gam bet X_hat)))"


section \<open>Indices and arrays\<close>

lemma length_indices: "length (indices s) = prod_list s"
proof (induction s)
  case Nil
  show ?case by simp
next
  case (Cons n ns)
  have "length (indices (n # ns)) = sum_list (map (\<lambda>i. prod_list ns) [0..<n])"
    by (simp add: length_concat comp_def Cons.IH)
  also have "\<dots> = n * prod_list ns"
    by (simp add: sum_list_triv)
  finally show ?case by simp
qed

lemma nth_concat_uniform:
  "\<forall>xs \<in> set xss. length xs = m \<Longrightarrow> i < length xss \<Longrightarrow> r < m
     \<Longrightarrow> concat xss ! (i * m + r) = xss ! i ! r"
proof (induction xss arbitrary: i)
  case Nil
  then show ?case by simp
next
  case (Cons xs xss)
  show ?case
  proof (cases i)
    case 0
    with Cons.prems show ?thesis by (simp add: nth_append)
  next
    case (Suc k)
    with Cons.prems have "concat xss ! (k * m + r) = xss ! k ! r"
      by (intro Cons.IH) auto
    with Suc Cons.prems show ?thesis by (simp add: nth_append)
  qed
qed

lemma valid_index_Nil [simp]: "valid_index [] idx = (idx = [])"
  by (simp add: valid_index_def)

lemma valid_index_Cons:
  "valid_index (n # ns) idx = (\<exists>i is. idx = i # is \<and> i < n \<and> valid_index ns is)"
  by (cases idx) (auto simp: valid_index_def)

lemma valid_index_Cons_Cons [simp]:
  "valid_index (n # ns) (i # is) = (i < n \<and> valid_index ns is)"
  by (simp add: valid_index_def)

lemma valid_index_length: "valid_index s idx \<Longrightarrow> length idx = length s"
  by (simp add: valid_index_def list_all2_lengthD)

lemma ravel_less: "valid_index s idx \<Longrightarrow> ravel s idx < prod_list s"
proof (induction s arbitrary: idx)
  case Nil
  then show ?case by simp
next
  case (Cons n ns)
  then obtain i "is" where idx: "idx = i # is" "i < n" "valid_index ns is"
    by (auto simp: valid_index_Cons)
  have "ravel ns is < prod_list ns" using Cons.IH idx by simp
  then have "i * prod_list ns + ravel ns is < Suc i * prod_list ns" by simp
  also have "\<dots> \<le> n * prod_list ns" using idx(2) by (intro mult_le_mono1) simp
  finally show ?case using idx by simp
qed

lemma nth_indices: "valid_index s idx \<Longrightarrow> indices s ! ravel s idx = idx"
proof (induction s arbitrary: idx)
  case Nil
  then show ?case by simp
next
  case (Cons n ns)
  then obtain i "is" where idx: "idx = i # is" "i < n" "valid_index ns is"
    by (auto simp: valid_index_Cons)
  let ?xss = "map (\<lambda>i. map ((#) i) (indices ns)) [0..<n]"
  have r: "ravel ns is < prod_list ns" using idx by (simp add: ravel_less)
  have "concat ?xss ! (i * prod_list ns + ravel ns is) = ?xss ! i ! ravel ns is"
    using idx r by (intro nth_concat_uniform) (auto simp: length_indices)
  also have "\<dots> = i # indices ns ! ravel ns is"
    using idx r by (simp add: length_indices)
  finally show ?case using idx Cons.IH by simp
qed

lemma set_indices: "set (indices s) = {idx. valid_index s idx}"
proof (induction s)
  case Nil
  show ?case by auto
next
  case (Cons n ns)
  show ?case by (auto simp: Cons.IH valid_index_Cons)
qed

lemma nd_at_tabulate: "valid_index s idx \<Longrightarrow> nd_at (tabulate s f) idx = f idx"
  by (simp add: nd_at_def tabulate_def ravel_less length_indices nth_indices)

lemma tabulate_cong:
  "(\<And>idx. valid_index s idx \<Longrightarrow> f idx = g idx) \<Longrightarrow> tabulate s f = tabulate s g"
  by (simp add: tabulate_def set_indices)

lemma concat_blocks_upt:
  "concat (map (\<lambda>i. map (\<lambda>r. i * m + r) [0..<m]) [0..<n]) = [0..<n * m]"
proof (induction n)
  case 0
  show ?case by simp
next
  case (Suc n)
  have "map (\<lambda>r. n * m + r) [0..<m] = [n * m..<n * m + m]"
    using map_add_upt [of "n * m" m] by (simp add: add.commute)
  moreover have "[0..<n * m + m] = [0..<n * m] @ [n * m..<n * m + m]"
    by (rule upt_add_eq_append) simp
  ultimately show ?case using Suc by (simp add: add.commute [of m "n * m"])
qed

lemma map_ravel_indices: "map (ravel s) (indices s) = [0..<prod_list s]"
proof (induction s)
  case Nil
  show ?case by simp
next
  case (Cons n ns)
  have "map (ravel (n # ns)) (indices (n # ns))
        = concat (map (\<lambda>i. map (\<lambda>r. i * prod_list ns + r) (map (ravel ns) (indices ns))) [0..<n])"
    by (simp add: map_concat comp_def)
  also have "\<dots> = [0..<n * prod_list ns]"
    unfolding Cons.IH by (rule concat_blocks_upt)
  finally show ?case by simp
qed

lemma tabulate_nd_at: "wf_nd a \<Longrightarrow> tabulate (shape a) (nd_at a) = a"
proof -
  assume "wf_nd a"
  then have len: "length (data a) = prod_list (shape a)" by (simp add: wf_nd_def)
  have "map (nd_at a) (indices (shape a)) = map ((!) (data a)) (map (ravel (shape a)) (indices (shape a)))"
    by (simp add: nd_at_def comp_def)
  also have "\<dots> = data a"
    unfolding map_ravel_indices using len map_nth [of "data a"] by simp
  finally show ?thesis by (cases a) (simp add: tabulate_def)
qed

lemma shape_tabulate [simp]: "shape (tabulate s f) = s"
  by (simp add: tabulate_def)

lemma wf_tabulate: "list_all (\<lambda>n. 0 < n) s \<Longrightarrow> wf_nd (tabulate s f)"
  by (simp add: tabulate_def wf_nd_def length_indices)

lemma nd_map_tabulate: "nd_map h (tabulate s f) = tabulate s (\<lambda>idx. h (f idx))"
  by (simp add: nd_map_def tabulate_def comp_def)

lemma sum_list_concat: "sum_list (concat xss) = sum_list (map sum_list xss)"
  for xss :: "real list list"
  by (induction xss) simp_all

lemma sum_list_filter_indices_Cons:
  "sum_list (map F (filter P (indices (n # ns))))
   = (\<Sum>i<n. sum_list (map (\<lambda>is. F (i # is)) (filter (\<lambda>is. P (i # is)) (indices ns))))"
  for F :: "nat list \<Rightarrow> real"
proof -
  have "sum_list (map F (filter P (indices (n # ns))))
        = sum_list (map (\<lambda>i. sum_list (map (\<lambda>is. F (i # is)) (filter (\<lambda>is. P (i # is)) (indices ns)))) [0..<n])"
    by (simp add: filter_concat map_concat sum_list_concat comp_def filter_map)
  also have "\<dots> = (\<Sum>i<n. sum_list (map (\<lambda>is. F (i # is)) (filter (\<lambda>is. P (i # is)) (indices ns))))"
    by (simp add: interv_sum_list_conv_sum_set_nat atLeast0LessThan)
  finally show ?thesis .
qed

lemma sum_list_filter_indices_Nil:
  "sum_list (map F (filter P (indices []))) = (if P [] then F [] else 0)"
  by simp

lemma valid_index_2: "valid_index [n, d] idx = (\<exists>i j. idx = [i, j] \<and> i < n \<and> j < d)"
  by (auto simp: valid_index_Cons)

lemma valid_index_1: "valid_index [d] idx = (\<exists>j. idx = [j] \<and> j < d)"
  by (auto simp: valid_index_Cons)

lemma nd_mean_axis0_2d:
  "nd_mean [0] False (tabulate [n, d] F)
   = tabulate [d] (\<lambda>oidx. (\<Sum>i<n. F [i, oidx ! 0]) / real n)"
proof -
  have rs: "reduced_shape [0] False [n, d] = [d]"
    by (simp add: reduced_shape_def upt_rec)
  have "sum_list (map (nd_at (tabulate [n, d] F))
           (filter (\<lambda>idx. reduced_index [0] False idx = [j]) (indices [n, d])))
        = (\<Sum>i<n. F [i, j])" if "j < d" for j
  proof -
    have "sum_list (map (nd_at (tabulate [n, d] F)) (filter (\<lambda>idx. reduced_index [0] False idx = [j]) (indices [n, d])))
          = sum_list (map F (filter (\<lambda>idx. reduced_index [0] False idx = [j]) (indices [n, d])))"
      by (rule arg_cong [where f = sum_list], rule map_cong) (auto simp: set_indices nd_at_tabulate)
    also have "sum_list (map F (filter (\<lambda>idx. reduced_index [0] False idx = [j]) (indices [n, d])))
          = (\<Sum>i<n. \<Sum>j'<d. if j' = j then F [i, j'] else 0)"
      unfolding sum_list_filter_indices_Cons sum_list_filter_indices_Nil
      by (simp add: reduced_index_def upt_rec)
    also have "\<dots> = (\<Sum>i<n. F [i, j])" using that by simp
    finally show ?thesis .
  qed
  then show ?thesis
    unfolding nd_mean_def shape_tabulate rs
    by (intro tabulate_cong) (auto simp: valid_index_1)
qed


lemma join_shapes_nth:
  "join_shapes s t = Some u \<Longrightarrow>
     length s = length u \<and> length t = length u \<and>
     (\<forall>k<length u. (s ! k = u ! k \<or> s ! k = 1) \<and> (t ! k = u ! k \<or> t ! k = 1))"
proof (induction s t arbitrary: u rule: join_shapes.induct)
  case 1
  then show ?case by simp
next
  case (2 l ls r rs)
  from "2.prems" obtain v where v: "join_shapes ls rs = Some v" and u: "u = (if l = r \<or> r = 1 then l else r) # v"
    and lr: "l = r \<or> r = 1 \<or> l = 1"
    by (auto split: if_splits)
  have ih: "length ls = length v \<and> length rs = length v \<and>
     (\<forall>k<length v. (ls ! k = v ! k \<or> ls ! k = 1) \<and> (rs ! k = v ! k \<or> rs ! k = 1))"
  proof (cases "l = r \<or> r = 1")
    case True
    then show ?thesis using "2.IH"(1) v by blast
  next
    case False
    then show ?thesis using "2.IH"(2) v lr by blast
  qed
  show ?case
  proof (intro conjI allI impI)
    fix k assume "k < length u"
    then show "(l # ls) ! k = u ! k \<or> (l # ls) ! k = 1" "(r # rs) ! k = u ! k \<or> (r # rs) ! k = 1"
      using ih u lr by (cases k; auto)+
  qed (use ih u in auto)
qed simp_all

lemma valid_bidx:
  assumes len: "length s \<le> length idx"
    and ok: "\<And>k. k < length s \<Longrightarrow> s ! k = 1 \<or> idx ! (k + (length idx - length s)) < s ! k"
  shows "valid_index s (bidx s idx)"
proof -
  have "length (bidx s idx) = length s"
    using len by (simp add: bidx_def)
  moreover have "bidx s idx ! k < s ! k" if "k < length s" for k
    using that len ok [of k] by (auto simp: bidx_def add.commute)
  ultimately show ?thesis
    by (simp add: valid_index_def list_all2_conv_all_nth)
qed

lemma broadcast_valid:
  assumes bs: "broadcast_shape s t = Some u" and idx: "valid_index u idx"
  shows "valid_index s (bidx s idx) \<and> valid_index t (bidx t idx)"
proof -
  define r where "r = max (length s) (length t)"
  have j: "join_shapes (pad_shape r s) (pad_shape r t) = Some u"
    using bs by (simp add: broadcast_shape_def r_def Let_def)
  note jn = join_shapes_nth [OF j]
  have lu: "length u = r" using jn by (simp add: pad_shape_def r_def)
  have li: "length idx = r" using idx lu by (simp add: valid_index_length)
  have lt: "\<And>k. k < r \<Longrightarrow> idx ! k < u ! k"
    using idx lu by (simp add: valid_index_def list_all2_conv_all_nth)
  have "valid_index w (bidx w idx)" if w: "length w \<le> r"
    and pw: "\<And>k. k < r \<Longrightarrow> pad_shape r w ! k = u ! k \<or> pad_shape r w ! k = 1" for w
  proof (rule valid_bidx)
    show "length w \<le> length idx" using w li by simp
  next
    fix k assume k: "k < length w"
    have "pad_shape r w ! (k + (r - length w)) = w ! k"
      by (simp add: pad_shape_def nth_append)
    moreover have "k + (r - length w) < r" using k w by simp
    ultimately show "w ! k = 1 \<or> idx ! (k + (length idx - length w)) < w ! k"
      using pw [of "k + (r - length w)"] lt [of "k + (r - length w)"] li by auto
  qed
  from this [of s] this [of t] show ?thesis
    using jn lu by (auto simp: r_def)
qed

lemma broadcast_op_tabulate:
  assumes bs: "broadcast_shape s t = Some u"
  shows "broadcast_op h (tabulate s f) (tabulate t g)
         = Inr (tabulate u (\<lambda>idx. h (f (bidx s idx)) (g (bidx t idx))))"
proof -
  have "tabulate u (\<lambda>idx. h (nd_at (tabulate s f) (bidx s idx)) (nd_at (tabulate t g) (bidx t idx)))
        = tabulate u (\<lambda>idx. h (f (bidx s idx)) (g (bidx t idx)))"
    by (rule tabulate_cong) (use broadcast_valid [OF bs] in \<open>simp add: nd_at_tabulate\<close>)
  then show ?thesis by (simp add: broadcast_op_def bs)
qed

lemma broadcast_op_mismatch:
  "broadcast_shape (shape a) (shape b) = None \<Longrightarrow> broadcast_op h a b = Inl MXNetError"
  by (simp add: broadcast_op_def)


lemma broadcast_2d_1d:
  "broadcast_op h (tabulate [n, d] f) (tabulate [d] g)
   = Inr (tabulate [n, d] (\<lambda>idx. h (f idx) (g [idx ! 1])))"
proof -
  have "broadcast_shape [n, d] [d] = Some [n, d]"
    by (simp add: broadcast_shape_def pad_shape_def)
  from broadcast_op_tabulate [OF this] show ?thesis
    by (auto simp: valid_index_2 bidx_def intro!: tabulate_cong)
qed

lemma broadcast_2d_row:
  "broadcast_op h (tabulate [n, d] f) (tabulate [1, d] g)
   = Inr (tabulate [n, d] (\<lambda>idx. h (f idx) (g [0, idx ! 1])))"
proof -
  have "broadcast_shape [n, d] [1, d] = Some [n, d]"
    by (simp add: broadcast_shape_def pad_shape_def)
  from broadcast_op_tabulate [OF this] show ?thesis
    by (auto simp: valid_index_2 bidx_def intro!: tabulate_cong)
qed

lemma broadcast_row_2d:
  "broadcast_op h (tabulate [1, d] f) (tabulate [n, d] g)
   = Inr (tabulate [n, d] (\<lambda>idx. h (f [0, idx ! 1]) (g idx)))"
proof -
  have "broadcast_shape [1, d] [n, d] = Some [n, d]"
    by (auto simp: broadcast_shape_def pad_shape_def)
  from broadcast_op_tabulate [OF this] show ?thesis
    by (auto simp: valid_index_2 bidx_def intro!: tabulate_cong)
qed

lemma batch_norm_train_2d:
  assumes X: "shape X = [n, d]" "wf_nd X"
    and g: "shape gam = [1, d]" "wf_nd gam"
    and b: "shape bet = [1, d]" "wf_nd bet"
    and mm: "shape mmean = [1, d]" "wf_nd mmean"
    and mv: "shape mvar = [1, d]" "wf_nd mvar"
  shows "batch_norm True X gam bet mmean mvar eps momentum =
    Inr (tabulate [n, d] (\<lambda>idx. nd_at gam [0, idx ! 1]
             * ((nd_at X idx - batch_mean_2d X (idx ! 1)) / sqrt (batch_var_2d X (idx ! 1) + eps))
             + nd_at bet [0, idx ! 1]),
         tabulate [1, d] (\<lambda>idx. momentum * nd_at mmean idx
             + (1 - momentum) * batch_mean_2d X (idx ! 1)),
         tabulate [1, d] (\<lambda>idx. momentum * nd_at mvar idx
             + (1 - momentum) * batch_var_2d X (idx ! 1)))"
proof -
  have tX: "X = tabulate [n, d] (nd_at X)"
    using tabulate_nd_at [OF X(2)] X(1) by simp
  have tg: "gam = tabulate [1, d] (nd_at gam)"
    using tabulate_nd_at [OF g(2)] g(1) by simp
  have tb: "bet = tabulate [1, d] (nd_at bet)"
    using tabulate_nd_at [OF b(2)] b(1) by simp
  have tmm: "mmean = tabulate [1, d] (nd_at mmean)"
    using tabulate_nd_at [OF mm(2)] mm(1) by simp
  have tmv: "mvar = tabulate [1, d] (nd_at mvar)"
    using tabulate_nd_at [OF mv(2)] mv(1) by simp
  show ?thesis
    apply (subst tX, subst tg, subst tb, subst tmm, subst tmv)
    apply (simp add: batch_norm_def bind_def Let_def nd_mean_axis0_2d nd_sub_def nd_add_def
        nd_mul_def nd_div_def broadcast_2d_1d broadcast_2d_row [unfolded One_nat_def]
        broadcast_row_2d [unfolded One_nat_def]
        nd_power_scalar_def nd_plus_scalar_def nd_mul_scalar_def nd_sqrt_def nd_map_tabulate
        batch_mean_2d_def batch_var_2d_def X(1))
    done
qed


lemma valid_index_4:
  "valid_index [n, c, h, w] idx
   = (\<exists>i k y x. idx = [i, k, y, x] \<and> i < n \<and> k < c \<and> y < h \<and> x < w)"
  by (auto simp: valid_index_Cons)

lemma nd_mean_axes_4d:
  "nd_mean [0, 2, 3] True (tabulate [n, c, h, w] F)
   = tabulate [1, c, 1, 1]
       (\<lambda>oidx. (\<Sum>i<n. \<Sum>y<h. \<Sum>x<w. F [i, oidx ! 1, y, x]) / real (n * h * w))"
proof -
  have rs: "reduced_shape [0, 2, 3] True [n, c, h, w] = [1, c, 1, 1]"
    by (simp add: reduced_shape_def upt_rec)
  have "sum_list (map (nd_at (tabulate [n, c, h, w] F))
           (filter (\<lambda>idx. reduced_index [0, 2, 3] True idx = [0, k, 0, 0]) (indices [n, c, h, w])))
        = (\<Sum>i<n. \<Sum>y<h. \<Sum>x<w. F [i, k, y, x])" if "k < c" for k
  proof -
    let ?P = "\<lambda>idx. reduced_index [0, 2, 3] True idx = [0, k, 0, 0]"
    have "sum_list (map (nd_at (tabulate [n, c, h, w] F)) (filter ?P (indices [n, c, h, w])))
          = sum_list (map F (filter ?P (indices [n, c, h, w])))"
      by (rule arg_cong [where f = sum_list], rule map_cong) (auto simp: set_indices nd_at_tabulate)
    also have "\<dots> = (\<Sum>i<n. \<Sum>k'<c. \<Sum>y<h. \<Sum>x<w. if k' = k then F [i, k', y, x] else 0)"
      unfolding sum_list_filter_indices_Cons sum_list_filter_indices_Nil
      by (simp add: reduced_index_def upt_rec)
    also have "\<dots> = (\<Sum>i<n. \<Sum>y<h. \<Sum>x<w. F [i, k, y, x])"
    proof (rule sum.cong [OF refl])
      fix i
      have "(\<Sum>k'<c. \<Sum>y<h. \<Sum>x<w. if k' = k then F [i, k', y, x] else 0)
            = (\<Sum>k'<c. if k' = k then (\<Sum>y<h. \<Sum>x<w. F [i, k, y, x]) else 0)"
        by (rule sum.cong [OF refl]) simp
      also have "\<dots> = (\<Sum>y<h. \<Sum>x<w. F [i, k, y, x])"
        using that by simp
      finally show "(\<Sum>k'<c. \<Sum>y<h. \<Sum>x<w. if k' = k then F [i, k', y, x] else 0)
            = (\<Sum>y<h. \<Sum>x<w. F [i, k, y, x])" .
    qed
    finally show ?thesis .
  qed
  then show ?thesis
    unfolding nd_mean_def shape_tabulate rs
    by (intro tabulate_cong) (auto simp: valid_index_4)
qed

lemma broadcast_4d_chan:
  "broadcast_op f (tabulate [n, c, h, w] F) (tabulate [1, c, 1, 1] G)
   = Inr (tabulate [n, c, h, w] (\<lambda>idx. f (F idx) (G [0, idx ! 1, 0, 0])))"
proof -
  have "broadcast_shape [n, c, h, w] [1, c, 1, 1] = Some [n, c, h, w]"
    by (simp add: broadcast_shape_def pad_shape_def)
  from broadcast_op_tabulate [OF this] show ?thesis
    by (auto simp: valid_index_4 bidx_def intro!: tabulate_cong)
qed

lemma broadcast_chan_4d:
  "broadcast_op f (tabulate [1, c, 1, 1] F) (tabulate [n, c, h, w] G)
   = Inr (tabulate [n, c, h, w] (\<lambda>idx. f (F [0, idx ! 1, 0, 0]) (G idx)))"
proof -
  have "broadcast_shape [1, c, 1, 1] [n, c, h, w] = Some [n, c, h, w]"
    by (auto simp: broadcast_shape_def pad_shape_def)
  from broadcast_op_tabulate [OF this] show ?thesis
    by (auto simp: valid_index_4 bidx_def intro!: tabulate_cong)
qed

lemma batch_norm_train_4d:
  assumes X: "shape X = [n, c, h, w]" "wf_nd X"
    and g: "shape gam = [1, c, 1, 1]" "wf_nd gam"
    and b: "shape bet = [1, c, 1, 1]" "wf_nd bet"
    and mm: "shape mmean = [1, c, 1, 1]" "wf_nd mmean"
    and mv: "shape mvar = [1, c, 1, 1]" "wf_nd mvar"
  shows "batch_norm True X gam bet mmean mvar eps momentum =
    Inr (tabulate [n, c, h, w] (\<lambda>idx. nd_at gam [0, idx ! 1, 0, 0]
             * ((nd_at X idx - batch_mean_4d X (idx ! 1)) / sqrt (batch_var_4d X (idx ! 1) + eps))
             + nd_at bet [0, idx ! 1, 0, 0]),
         tabulate [1, c, 1, 1] (\<lambda>idx. momentum * nd_at mmean idx
             + (1 - momentum) * batch_mean_4d X (idx ! 1)),
         tabulate [1, c, 1, 1] (\<lambda>idx. momentum * nd_at mvar idx
             + (1 - momentum) * batch_var_4d X (idx ! 1)))"
proof -
  have tX: "X = tabulate [n, c, h, w] (nd_at X)"
    using tabulate_nd_at [OF X(2)] X(1) by simp
  have tg: "gam = tabulate [1, c, 1, 1] (nd_at gam)"
    using tabulate_nd_at [OF g(2)] g(1) by simp
  have tb: "bet = tabulate [1, c, 1, 1] (nd_at bet)"
    using tabulate_nd_at [OF b(2)] b(1) by simp
  have tmm: "mmean = tabulate [1, c, 1, 1] (nd_at mmean)"
    using tabulate_nd_at [OF mm(2)] mm(1) by simp
  have tmv: "mvar = tabulate [1, c, 1, 1] (nd_at mvar)"
    using tabulate_nd_at [OF mv(2)] mv(1) by simp
  have same: "tabulate [Suc 0, c, Suc 0, Suc 0] (\<lambda>idx. F idx + G [0, idx ! Suc 0, 0, 0])
     = tabulate [Suc 0, c, Suc 0, Suc 0] (\<lambda>idx. F idx + G idx)" for F G :: "nat list \<Rightarrow> real"
    by (rule tabulate_cong) (auto simp: valid_index_4 [of "Suc 0" c "Suc 0" "Suc 0"])
  show ?thesis
    apply (subst tX, subst tg, subst tb, subst tmm, subst tmv)
    apply (simp add: batch_norm_def bind_def Let_def nd_mean_axes_4d [unfolded One_nat_def]
        nd_sub_def nd_add_def nd_mul_def nd_div_def broadcast_4d_chan [unfolded One_nat_def]
        broadcast_chan_4d [unfolded One_nat_def]
        nd_power_scalar_def nd_plus_scalar_def nd_mul_scalar_def nd_sqrt_def nd_map_tabulate
        batch_mean_4d_def batch_var_4d_def X(1))
    done
qed

lemmas nd_eval = Let_def bind_def nd_sub_def nd_div_def nd_mul_def nd_add_def broadcast_op_def
  broadcast_shape_def pad_shape_def bidx_def nd_power_scalar_def nd_plus_scalar_def
  nd_mul_scalar_def nd_sqrt_def nd_map_def nd_mean_def reduced_shape_def reduced_index_def
  tabulate_def nd_at_def upt_conv_Cons

lemma sum_lessThan_2: "(\<Sum>i<2. f i) = f 0 + f 1" for f :: "nat \<Rightarrow> real"
  by (simp add: numeral_2_eq_2)




lemma broadcast_op_not_assert: "broadcast_op f a b \<noteq> Inl AssertionError"
  by (simp add: broadcast_op_def split: option.splits)

lemma bind_not_assert:
  "m \<noteq> Inl AssertionError \<Longrightarrow> (\<And>v. f v \<noteq> Inl AssertionError) \<Longrightarrow> bind m f \<noteq> Inl AssertionError"
  by (auto simp: bind_def split: sum.splits)

lemma nd_const_tabulate: "NDArray s (replicate (prod_list s) c) = tabulate s (\<lambda>_. c)"
  by (simp add: tabulate_def map_replicate_const length_indices)

lemma scale_shift_identity_2d:
  assumes "shape X_hat = [n, d]" "wf_nd X_hat"
  shows "scale_shift (nd_ones [1, d]) (nd_zeros [1, d]) X_hat = Inr X_hat"
proof -
  have t: "tabulate [n, d] (nd_at X_hat) = X_hat"
    using assms tabulate_nd_at [of X_hat] by simp
  have "scale_shift (tabulate [1, d] (\<lambda>_. 1)) (tabulate [1, d] (\<lambda>_. 0)) (tabulate [n, d] F)
        = Inr (tabulate [n, d] F)" for F
    by (simp add: scale_shift_def bind_def nd_mul_def nd_add_def
        broadcast_2d_row [unfolded One_nat_def] broadcast_row_2d [unfolded One_nat_def])
  from this [of "nd_at X_hat"] show ?thesis
    unfolding nd_ones_def nd_zeros_def nd_const_tabulate t .
qed

lemma scale_shift_identity_4d:
  assumes "shape X_hat = [n, c, h, w]" "wf_nd X_hat"
  shows "scale_shift (nd_ones [1, c, 1, 1]) (nd_zeros [1, c, 1, 1]) X_hat = Inr X_hat"
proof -
  have t: "tabulate [n, c, h, w] (nd_at X_hat) = X_hat"
    using assms tabulate_nd_at [of X_hat] by simp
  have "scale_shift (tabulate [1, c, 1, 1] (\<lambda>_. 1)) (tabulate [1, c, 1, 1] (\<lambda>_. 0))
          (tabulate [n, c, h, w] F)
        = Inr (tabulate [n, c, h, w] F)" for F
    by (simp add: scale_shift_def bind_def nd_mul_def nd_add_def
        broadcast_4d_chan [unfolded One_nat_def] broadcast_chan_4d [unfolded One_nat_def])
  from this [of "nd_at X_hat"] show ?thesis
    unfolding nd_ones_def nd_zeros_def nd_const_tabulate t .
qed

lemma batch_norm_train_2d_general:
  assumes X: "shape X = [n, d]" "wf_nd X"
  shows "batch_norm True X gam bet mmean mvar eps momentum =
    bind (moving_update momentum mmean (mean_array_2d X)) (\<lambda>mmean'.
    bind (moving_update momentum mvar (var_array_2d X)) (\<lambda>mvar'.
    bind (scale_shift gam bet (standardized_2d X eps)) (\<lambda>Y.
    Inr (Y, mmean', mvar'))))"
proof -
  have tX: "X = tabulate [n, d] (nd_at X)"
    using tabulate_nd_at [OF X(2)] X(1) by simp
  show ?thesis
    apply (subst tX)
    apply (simp add: batch_norm_def bind_def Let_def nd_mean_axis0_2d nd_sub_def
        nd_div_def broadcast_2d_1d moving_update_def scale_shift_def
        nd_power_scalar_def nd_plus_scalar_def nd_sqrt_def nd_map_tabulate
        mean_array_2d_def var_array_2d_def standardized_2d_def
        batch_mean_2d_def batch_var_2d_def X(1) split: sum.splits)
    done
qed

lemma batch_norm_train_4d_general:
  assumes X: "shape X = [n, c, h, w]" "wf_nd X"
  shows "batch_norm True X gam bet mmean mvar eps momentum =
    bind (moving_update momentum mmean (mean_array_4d X)) (\<lambda>mmean'.
    bind (moving_update momentum mvar (var_array_4d X)) (\<lambda>mvar'.
    bind (scale_shift gam bet (standardized_4d X eps)) (\<lambda>Y.
    Inr (Y, mmean', mvar'))))"
proof -
  have tX: "X = tabulate [n, c, h, w] (nd_at X)"
    using tabulate_nd_at [OF X(2)] X(1) by simp
  show ?thesis
    apply (subst tX)
    apply (simp add: batch_norm_def bind_def Let_def nd_mean_axes_4d [unfolded One_nat_def]
        nd_sub_def nd_div_def broadcast_4d_chan [unfolded One_nat_def]
        moving_update_def scale_shift_def
        nd_power_scalar_def nd_plus_scalar_def nd_sqrt_def nd_map_tabulate
        mean_array_4d_def var_array_4d_def standardized_4d_def
        batch_mean_4d_def batch_var_4d_def X(1) split: sum.splits)
    done
qed

lemma bind_Inr_3:
  "bind a (\<lambda>x. bind b (\<lambda>y. bind c (\<lambda>z. Inr (z, x, y)))) = Inr (Y, x', y')
   \<longleftrightarrow> a = Inr x' \<and> b = Inr y' \<and> c = Inr Y"
  by (auto simp: bind_def split: sum.splits)

lemma batch_norm_predict_general:
  "batch_norm False X gam bet mmean mvar eps momentum =
     bind (standardize X mmean mvar eps) (\<lambda>X_hat.
     bind (scale_shift gam bet X_hat) (\<lambda>Y.
     Inr (Y, mmean, mvar)))"
  by (simp add: batch_norm_def standardize_def scale_shift_def bind_def split: sum.splits)

lemma nn_Conv2D_accepts:
  "0 < num_channels \<Longrightarrow> num_channels < 2 ^ 31 \<Longrightarrow> 0 < ksize \<Longrightarrow> 0 < strd
     \<Longrightarrow> nn_Conv2D num_channels ksize strd pad act = Inr (Conv2D num_channels ksize strd pad act)"
  by (simp add: nn_Conv2D_def)

lemma nn_Conv2D_rejects:
  "\<not> (0 < num_channels \<and> num_channels < 2 ^ 31 \<and> 0 < ksize \<and> 0 < strd)
     \<Longrightarrow> nn_Conv2D num_channels ksize strd pad act = Inl MXNetError"
  by (simp add: nn_Conv2D_def)







lemma bind_Inl_3:
  "bind a (\<lambda>x. bind b (\<lambda>y. bind c (\<lambda>z. Inr (z, x, y)))) = Inl e
   \<longleftrightarrow> a = Inl e
       \<or> (\<exists>x. a = Inr x \<and> b = Inl e)
       \<or> (\<exists>x y. a = Inr x \<and> b = Inr y \<and> c = Inl e)"
  by (auto simp: bind_def split: sum.splits)

lemma bind_Inl_2:
  "bind a (\<lambda>x. bind (f x) (\<lambda>y. Inr (g x y))) = Inl e
   \<longleftrightarrow> a = Inl e \<or> (\<exists>x. a = Inr x \<and> f x = Inl e)"
  by (auto simp: bind_def split: sum.splits)

section \<open>Properties of the notebooks' code\<close>

text \<open>
  C1. In training mode, for every 2-D input \<open>X\<close> of shape \<open>(n, d)\<close>: whenever \<open>batch_norm\<close>
  returns, its \<open>Y\<close> is \<open>gamma * X_hat + beta\<close> with
  \<open>X_hat[i, j] = (X[i, j] - mean[j]) / sqrt(var[j] + eps)\<close>, where \<open>mean[j]\<close> is the mean of
  column \<open>j\<close> of \<open>X\<close> over axis 0 and \<open>var[j]\<close> the mean of the squared deviations from it.
  With parameters and moving averages of the layer's shape \<open>(1, d)\<close> it does return, and
  \<open>Y[i, j] = gamma[j] * X_hat[i, j] + beta[j]\<close>.
\<close>

theorem batch_norm_training_2d:
  "(shape X = [n, d] \<and> wf_nd X
      \<and> batch_norm True X gam bet mmean mvar eps momentum = Inr (Y, mmean', mvar')
      \<longrightarrow> scale_shift gam bet (standardized_2d X eps) = Inr Y)
   \<and> (shape X = [n, d] \<and> wf_nd X \<and> shape gam = [1, d] \<and> wf_nd gam \<and> shape bet = [1, d] \<and> wf_nd bet
        \<and> shape mmean = [1, d] \<and> wf_nd mmean \<and> shape mvar = [1, d] \<and> wf_nd mvar
      \<longrightarrow> (\<exists>Y mmean' mvar'.
             batch_norm True X gam bet mmean mvar eps momentum = Inr (Y, mmean', mvar') \<and>
             shape Y = [n, d] \<and>
             (\<forall>i<n. \<forall>j<d.
                nd_at Y [i, j]
                = nd_at gam [0, j]
                  * ((nd_at X [i, j] - batch_mean_2d X j) / sqrt (batch_var_2d X j + eps))
                  + nd_at bet [0, j])))"
proof (intro conjI impI)
  assume a: "shape X = [n, d] \<and> wf_nd X
      \<and> batch_norm True X gam bet mmean mvar eps momentum = Inr (Y, mmean', mvar')"
  then have "batch_norm True X gam bet mmean mvar eps momentum =
    bind (moving_update momentum mmean (mean_array_2d X)) (\<lambda>mmean'.
    bind (moving_update momentum mvar (var_array_2d X)) (\<lambda>mvar'.
    bind (scale_shift gam bet (standardized_2d X eps)) (\<lambda>Y.
    Inr (Y, mmean', mvar'))))"
    by (intro batch_norm_train_2d_general) simp_all
  with a have "bind (moving_update momentum mmean (mean_array_2d X)) (\<lambda>mmean'.
    bind (moving_update momentum mvar (var_array_2d X)) (\<lambda>mvar'.
    bind (scale_shift gam bet (standardized_2d X eps)) (\<lambda>Y.
    Inr (Y, mmean', mvar')))) = Inr (Y, mmean', mvar')"
    by simp
  then show "scale_shift gam bet (standardized_2d X eps) = Inr Y"
    by (simp only: bind_Inr_3)
next
  assume "shape X = [n, d] \<and> wf_nd X \<and> shape gam = [1, d] \<and> wf_nd gam \<and> shape bet = [1, d] \<and> wf_nd bet
        \<and> shape mmean = [1, d] \<and> wf_nd mmean \<and> shape mvar = [1, d] \<and> wf_nd mvar"
  then have "batch_norm True X gam bet mmean mvar eps momentum =
    Inr (tabulate [n, d] (\<lambda>idx. nd_at gam [0, idx ! 1]
             * ((nd_at X idx - batch_mean_2d X (idx ! 1)) / sqrt (batch_var_2d X (idx ! 1) + eps))
             + nd_at bet [0, idx ! 1]),
         tabulate [1, d] (\<lambda>idx. momentum * nd_at mmean idx
             + (1 - momentum) * batch_mean_2d X (idx ! 1)),
         tabulate [1, d] (\<lambda>idx. momentum * nd_at mvar idx
             + (1 - momentum) * batch_var_2d X (idx ! 1)))"
    by (intro batch_norm_train_2d) simp_all
  then show "\<exists>Y mmean' mvar'.
             batch_norm True X gam bet mmean mvar eps momentum = Inr (Y, mmean', mvar') \<and>
             shape Y = [n, d] \<and>
             (\<forall>i<n. \<forall>j<d.
                nd_at Y [i, j]
                = nd_at gam [0, j]
                  * ((nd_at X [i, j] - batch_mean_2d X j) / sqrt (batch_var_2d X j + eps))
                  + nd_at bet [0, j])"
    by (simp add: nd_at_tabulate)
qed

text \<open>
  C1 on a batch of two rows with one feature: mean 2, variance 1, \<open>eps = 3\<close>.
\<close>

theorem batch_norm_training_2d_witness:
  "batch_norm True (NDArray [2, 1] [1, 3]) (NDArray [1, 1] [2]) (NDArray [1, 1] [1])
       (NDArray [1, 1] [0]) (NDArray [1, 1] [1]) 3 (9 / 10)
     = Inr (NDArray [2, 1] [0, 2], NDArray [1, 1] [1 / 5], NDArray [1, 1] [1])
   \<and> scale_shift (NDArray [1, 1] [2]) (NDArray [1, 1] [1]) (standardized_2d (NDArray [2, 1] [1, 3]) 3)
     = Inr (NDArray [2, 1] [0, 2])
   \<and> (\<exists>Y mmean' mvar'.
     batch_norm True (NDArray [2, 1] [1, 3]) (NDArray [1, 1] [2]) (NDArray [1, 1] [1])
       (NDArray [1, 1] [0]) (NDArray [1, 1] [1]) 3 (9 / 10) = Inr (Y, mmean', mvar') \<and>
     shape Y = [2, 1] \<and> nd_at Y [0, 0] = 0 \<and> nd_at Y [1, 0] = 2)"
proof -
  let ?X = "NDArray [2, 1] [1, 3]" and ?g = "NDArray [1, 1] [2]" and ?b = "NDArray [1, 1] [1]"
    and ?m = "NDArray [1, 1] [0]" and ?v = "NDArray [1, 1] [1]"
  note gen = batch_norm_training_2d [THEN conjunct1, rule_format]
  note lay = batch_norm_training_2d [THEN conjunct2, rule_format]
  have r: "batch_norm True ?X ?g ?b ?m ?v 3 (9 / 10)
     = Inr (NDArray [2, 1] [0, 2], NDArray [1, 1] [1 / 5], NDArray [1, 1] [1])"
    by (simp add: batch_norm_def nd_eval)
  have g: "scale_shift ?g ?b (standardized_2d ?X 3) = Inr (NDArray [2, 1] [0, 2])"
    using gen [of ?X 2 1 ?g ?b ?m ?v 3 "9 / 10" "NDArray [2, 1] [0, 2]"
        "NDArray [1, 1] [1 / 5]" "NDArray [1, 1] [1]"] r
    by (simp add: wf_nd_def)
  from lay [of ?X 2 1 ?g ?b ?m ?v 3 "9 / 10"]
  obtain Y mmean' mvar' where
    y: "batch_norm True ?X ?g ?b ?m ?v 3 (9 / 10) = Inr (Y, mmean', mvar')" "shape Y = [2, 1]"
    and e: "\<forall>i<2. \<forall>j<1. nd_at Y [i, j]
              = nd_at ?g [0, j]
                * ((nd_at ?X [i, j] - batch_mean_2d ?X j) / sqrt (batch_var_2d ?X j + 3))
                + nd_at ?b [0, j]"
    by (auto simp: wf_nd_def)
  have "nd_at Y [0, 0] = 0" "nd_at Y [1, 0] = 2"
    using e [rule_format, of 0 0] e [rule_format, of 1 0]
    by (simp_all add: batch_var_2d_def batch_mean_2d_def nd_at_def sum_lessThan_2)
  with y r g show ?thesis by blast
qed



text \<open>
  C3, as stated, fails. In training mode a 3-D input is stopped by the \<open>assert\<close> statement of
  \<open>batch_norm\<close> itself: the failure is Python's \<open>AssertionError\<close> raised by the notebook's
  code, not an error of the framework (whose broadcasting accepts these shapes).
\<close>

theorem batch_norm_assertion_counterexample:
  "batch_norm True (NDArray [1, 1, 1] [0]) (NDArray [1] [1]) (NDArray [1] [0])
     (NDArray [1] [0]) (NDArray [1] [1]) (1 / 100000) (9 / 10) = Inl AssertionError"
  by (simp add: batch_norm_def)

text \<open>
  C3, amended. \<open>batch_norm\<close> makes one check of its own: in training mode an input that is
  neither 2-D nor 4-D is rejected with \<open>AssertionError\<close>, and in no other case is an error
  of \<open>batch_norm\<close> an \<open>AssertionError\<close>. Apart from that nothing is caught or translated:
  in prediction mode \<open>batch_norm\<close> fails with an error exactly when the standardization or
  the scale-and-shift step fails with it (so a moving mean whose shape does not broadcast
  against \<open>X\<close> is the framework's error), and in training mode on a 2-D or 4-D input
  exactly when the update of the moving mean, the update of the moving variance or the
  scale-and-shift step fails with it, the first of them that fails.
\<close>

theorem batch_norm_errors:
  "(training \<and> length (shape X) \<noteq> 2 \<and> length (shape X) \<noteq> 4
      \<longrightarrow> batch_norm training X gam bet mmean mvar eps momentum = Inl AssertionError)
   \<and> (\<not> (training \<and> length (shape X) \<noteq> 2 \<and> length (shape X) \<noteq> 4)
      \<longrightarrow> batch_norm training X gam bet mmean mvar eps momentum \<noteq> Inl AssertionError)
   \<and> (batch_norm False X gam bet mmean mvar eps momentum = Inl e
      \<longleftrightarrow> standardize X mmean mvar eps = Inl e
          \<or> (\<exists>X_hat. standardize X mmean mvar eps = Inr X_hat
                \<and> scale_shift gam bet X_hat = Inl e))
   \<and> (broadcast_shape (shape X) (shape mmean) = None
      \<longrightarrow> batch_norm False X gam bet mmean mvar eps momentum = Inl MXNetError)
   \<and> (shape X = [n, d] \<and> wf_nd X
      \<longrightarrow> (batch_norm True X gam bet mmean mvar eps momentum = Inl e
           \<longleftrightarrow> moving_update momentum mmean (mean_array_2d X) = Inl e
               \<or> (\<exists>m. moving_update momentum mmean (mean_array_2d X) = Inr m
                     \<and> moving_update momentum mvar (var_array_2d X) = Inl e)
               \<or> (\<exists>m v. moving_update momentum mmean (mean_array_2d X) = Inr m
                     \<and> moving_update momentum mvar (var_array_2d X) = Inr v
                     \<and> scale_shift gam bet (standardized_2d X eps) = Inl e)))
   \<and> (shape X = [n, c, h, w] \<and> wf_nd X
      \<longrightarrow> (batch_norm True X gam bet mmean mvar eps momentum = Inl e
           \<longleftrightarrow> moving_update momentum mmean (mean_array_4d X) = Inl e
               \<or> (\<exists>m. moving_update momentum mmean (mean_array_4d X) = Inr m
                     \<and> moving_update momentum mvar (var_array_4d X) = Inl e)
               \<or> (\<exists>m v. moving_update momentum mmean (mean_array_4d X) = Inr m
                     \<and> moving_update momentum mvar (var_array_4d X) = Inr v
                     \<and> scale_shift gam bet (standardized_4d X eps) = Inl e)))"
proof (intro conjI impI)
  assume "training \<and> length (shape X) \<noteq> 2 \<and> length (shape X) \<noteq> 4"
  then show "batch_norm training X gam bet mmean mvar eps momentum = Inl AssertionError"
    by (simp add: batch_norm_def)
next
  assume g: "\<not> (training \<and> length (shape X) \<noteq> 2 \<and> length (shape X) \<noteq> 4)"
  show "batch_norm training X gam bet mmean mvar eps momentum \<noteq> Inl AssertionError"
  proof (cases training)
    case False
    then show ?thesis
      unfolding batch_norm_def nd_sub_def nd_div_def nd_mul_def nd_add_def
      by (simp, intro bind_not_assert broadcast_op_not_assert) simp
  next
    case True
    with g have "length (shape X) = 2 \<or> length (shape X) = 4" by blast
    with True show ?thesis
      unfolding batch_norm_def nd_sub_def nd_div_def nd_mul_def nd_add_def Let_def split_beta
      by (simp, intro bind_not_assert broadcast_op_not_assert conjI impI) simp_all
  qed
next
  show "batch_norm False X gam bet mmean mvar eps momentum = Inl e
      \<longleftrightarrow> standardize X mmean mvar eps = Inl e
          \<or> (\<exists>X_hat. standardize X mmean mvar eps = Inr X_hat
                \<and> scale_shift gam bet X_hat = Inl e)"
    unfolding batch_norm_predict_general by (rule bind_Inl_2)
next
  assume "broadcast_shape (shape X) (shape mmean) = None"
  then have "nd_sub X mmean = Inl MXNetError"
    by (simp add: nd_sub_def broadcast_op_mismatch)
  then show "batch_norm False X gam bet mmean mvar eps momentum = Inl MXNetError"
    by (simp add: batch_norm_def bind_def)
next
  assume "shape X = [n, d] \<and> wf_nd X"
  then have "batch_norm True X gam bet mmean mvar eps momentum =
    bind (moving_update momentum mmean (mean_array_2d X)) (\<lambda>mmean'.
    bind (moving_update momentum mvar (var_array_2d X)) (\<lambda>mvar'.
    bind (scale_shift gam bet (standardized_2d X eps)) (\<lambda>Y.
    Inr (Y, mmean', mvar'))))"
    by (intro batch_norm_train_2d_general) simp_all
  then show "batch_norm True X gam bet mmean mvar eps momentum = Inl e
           \<longleftrightarrow> moving_update momentum mmean (mean_array_2d X) = Inl e
               \<or> (\<exists>m. moving_update momentum mmean (mean_array_2d X) = Inr m
                     \<and> moving_update momentum mvar (var_array_2d X) = Inl e)
               \<or> (\<exists>m v. moving_update momentum mmean (mean_array_2d X) = Inr m
                     \<and> moving_update momentum mvar (var_array_2d X) = Inr v
                     \<and> scale_shift gam bet (standardized_2d X eps) = Inl e)"
    by (simp only: bind_Inl_3)
next
  assume "shape X = [n, c, h, w] \<and> wf_nd X"
  then have "batch_norm True X gam bet mmean mvar eps momentum =
    bind (moving_update momentum mmean (mean_array_4d X)) (\<lambda>mmean'.
    bind (moving_update momentum mvar (var_array_4d X)) (\<lambda>mvar'.
    bind (scale_shift gam bet (standardized_4d X eps)) (\<lambda>Y.
    Inr (Y, mmean', mvar'))))"
    by (intro batch_norm_train_4d_general) simp_all
  then show "batch_norm True X gam bet mmean mvar eps momentum = Inl e
           \<longleftrightarrow> moving_update momentum mmean (mean_array_4d X) = Inl e
               \<or> (\<exists>m. moving_update momentum mmean (mean_array_4d X) = Inr m
                     \<and> moving_update momentum mvar (var_array_4d X) = Inl e)
               \<or> (\<exists>m v. moving_update momentum mmean (mean_array_4d X) = Inr m
                     \<and> moving_update momentum mvar (var_array_4d X) = Inr v
                     \<and> scale_shift gam bet (standardized_4d X eps) = Inl e)"
    by (simp only: bind_Inl_3)
qed

text \<open>
  The amended C3: the 3-D input; a moving mean of the wrong width in prediction mode; a
  \<open>gamma\<close> of the wrong width in prediction mode; a moving mean of the wrong width in
  training mode, 2-D and 4-D.
\<close>

theorem batch_norm_errors_witness:
  "batch_norm True (NDArray [1, 1, 1] [0]) (NDArray [1] [1]) (NDArray [1] [0])
     (NDArray [1] [0]) (NDArray [1] [1]) (1 / 100000) (9 / 10) = Inl AssertionError
   \<and> batch_norm False (NDArray [2, 2] [1, 2, 3, 4]) (NDArray [1, 2] [1, 1]) (NDArray [1, 2] [0, 0])
     (NDArray [1, 3] [0, 0, 0]) (NDArray [1, 2] [1, 1]) (1 / 100000) (9 / 10) = Inl MXNetError
   \<and> batch_norm False (NDArray [2, 2] [1, 2, 3, 4]) (NDArray [1, 3] [1, 1, 1])
     (NDArray [1, 2] [0, 0]) (NDArray [1, 2] [0, 0]) (NDArray [1, 2] [1, 1]) 3 (9 / 10)
     = Inl MXNetError
   \<and> batch_norm True (NDArray [2, 2] [1, 2, 3, 4]) (NDArray [1, 2] [1, 1]) (NDArray [1, 2] [0, 0])
     (NDArray [1, 3] [0, 0, 0]) (NDArray [1, 2] [1, 1]) (1 / 100000) (9 / 10) = Inl MXNetError
   \<and> batch_norm True (NDArray [1, 2, 1, 1] [1, 3]) (NDArray [1, 2, 1, 1] [1, 1])
     (NDArray [1, 2, 1, 1] [0, 0]) (NDArray [1, 3, 1, 1] [0, 0, 0])
     (NDArray [1, 2, 1, 1] [1, 1]) (1 / 100000) (9 / 10) = Inl MXNetError"
proof -
  let ?X = "NDArray [2, 2] [1, 2, 3, 4]" and ?g = "NDArray [1, 2] [1, 1]"
    and ?b = "NDArray [1, 2] [0, 0]" and ?bad = "NDArray [1, 3] [0, 0, 0]"
  let ?X4 = "NDArray [1, 2, 1, 1] [1, 3]" and ?g4 = "NDArray [1, 2, 1, 1] [1, 1]"
    and ?b4 = "NDArray [1, 2, 1, 1] [0, 0]" and ?bad4 = "NDArray [1, 3, 1, 1] [0, 0, 0]"
  note e = batch_norm_errors
  have a: "batch_norm True (NDArray [1, 1, 1] [0]) (NDArray [1] [1]) (NDArray [1] [0])
     (NDArray [1] [0]) (NDArray [1] [1]) (1 / 100000) (9 / 10) = Inl AssertionError"
    using e [THEN conjunct1,
        of True "NDArray [1, 1, 1] [0]" "NDArray [1] [1]" "NDArray [1] [0]" "NDArray [1] [0]"
          "NDArray [1] [1]" "1 / 100000" "9 / 10"]
    by simp
  have b: "batch_norm False ?X ?g ?b ?bad ?g (1 / 100000) (9 / 10) = Inl MXNetError"
    using e [THEN conjunct2, THEN conjunct2, THEN conjunct2, THEN conjunct1,
        of ?X ?bad ?g ?b ?g "1 / 100000" "9 / 10"]
    by (simp add: broadcast_shape_def pad_shape_def)
  have "standardize ?X ?b ?g 3 = Inr (NDArray [2, 2] [1 / 2, 1, 3 / 2, 2])"
    by (simp add: standardize_def nd_eval)
  moreover have "scale_shift (NDArray [1, 3] [1, 1, 1]) ?b (NDArray [2, 2] [1 / 2, 1, 3 / 2, 2])
      = Inl MXNetError"
    by (simp add: scale_shift_def bind_def nd_mul_def broadcast_op_def broadcast_shape_def
        pad_shape_def)
  ultimately have c: "batch_norm False ?X (NDArray [1, 3] [1, 1, 1]) ?b ?b ?g 3 (9 / 10)
      = Inl MXNetError"
    using e [THEN conjunct2, THEN conjunct2, THEN conjunct1,
        of ?X "NDArray [1, 3] [1, 1, 1]" ?b ?b ?g 3 "9 / 10" MXNetError]
    by blast
  have "moving_update (9 / 10) ?bad (mean_array_2d ?X) = Inl MXNetError"
    by (simp add: moving_update_def nd_add_def broadcast_op_def broadcast_shape_def pad_shape_def
        nd_mul_scalar_def nd_map_def mean_array_2d_def tabulate_def)
  then have d: "batch_norm True ?X ?g ?b ?bad ?g (1 / 100000) (9 / 10) = Inl MXNetError"
    using e [THEN conjunct2, THEN conjunct2, THEN conjunct2, THEN conjunct2, THEN conjunct1,
        of ?X 2 2 ?g ?b ?bad ?g "1 / 100000" "9 / 10" MXNetError]
    by (simp add: wf_nd_def)
  have "moving_update (9 / 10) ?bad4 (mean_array_4d ?X4) = Inl MXNetError"
    by (simp add: moving_update_def nd_add_def broadcast_op_def broadcast_shape_def pad_shape_def
        nd_mul_scalar_def nd_map_def mean_array_4d_def tabulate_def)
  then have f: "batch_norm True ?X4 ?g4 ?b4 ?bad4 ?g4 (1 / 100000) (9 / 10) = Inl MXNetError"
    using e [THEN conjunct2, THEN conjunct2, THEN conjunct2, THEN conjunct2, THEN conjunct2,
        of ?X4 1 2 1 1 ?g4 ?b4 ?bad4 ?g4 "1 / 100000" "9 / 10" MXNetError]
    by (simp add: wf_nd_def)
  from a b c d f show ?thesis by blast
qed

text \<open>
  C4, as stated, fails. A batch of two equal 1-channel images \<open>[[0, 2]]\<close>: the statistics over
  axis 0 alone leave every deviation at 0, so the output would be 0 everywhere, while
  \<open>batch_norm\<close> takes mean 1 and variance 1 over the batch and the two pixels and returns
  \<open>-1/2\<close> and \<open>1/2\<close> (with \<open>eps = 3\<close>).
\<close>

theorem batch_norm_4d_not_axis0_only:
  "batch_norm True (NDArray [2, 1, 1, 2] [0, 2, 0, 2]) (NDArray [1, 1, 1, 1] [1])
     (NDArray [1, 1, 1, 1] [0]) (NDArray [1, 1, 1, 1] [0]) (NDArray [1, 1, 1, 1] [0]) 3 (9 / 10)
   = Inr (NDArray [2, 1, 1, 2] [- 1 / 2, 1 / 2, - 1 / 2, 1 / 2],
          NDArray [1, 1, 1, 1] [1 / 10], NDArray [1, 1, 1, 1] [1 / 10])
   \<and> axis0_only_batch_norm (NDArray [2, 1, 1, 2] [0, 2, 0, 2]) (NDArray [1, 1, 1, 1] [1])
       (NDArray [1, 1, 1, 1] [0]) 3
     = Inr (NDArray [2, 1, 1, 2] [0, 0, 0, 0])
   \<and> NDArray [2, 1, 1, 2] [- 1 / 2, 1 / 2, - 1 / 2, 1 / 2] \<noteq> NDArray [2, 1, 1, 2] [0, 0, 0, 0]"
  by (simp add: batch_norm_def axis0_only_batch_norm_def scale_shift_def nd_eval)

text \<open>
  C4, amended. In training mode, for every 4-D input \<open>X\<close> of shape \<open>(n, c, h, w)\<close>: whenever
  \<open>batch_norm\<close> returns, its \<open>Y\<close> is \<open>gamma * X_hat + beta\<close> where each entry of \<open>X\<close> is
  standardized with the mean and variance of its channel, taken over the batch axis and
  both spatial axes (axes 0, 2 and 3). With parameters and moving averages of the layer's
  shape \<open>(1, c, 1, 1)\<close> it does return.
\<close>

theorem batch_norm_training_4d:
  "(shape X = [n, c, h, w] \<and> wf_nd X
      \<and> batch_norm True X gam bet mmean mvar eps momentum = Inr (Y, mmean', mvar')
      \<longrightarrow> scale_shift gam bet (standardized_4d X eps) = Inr Y)
   \<and> (shape X = [n, c, h, w] \<and> wf_nd X \<and> shape gam = [1, c, 1, 1] \<and> wf_nd gam
        \<and> shape bet = [1, c, 1, 1] \<and> wf_nd bet
        \<and> shape mmean = [1, c, 1, 1] \<and> wf_nd mmean \<and> shape mvar = [1, c, 1, 1] \<and> wf_nd mvar
      \<longrightarrow> (\<exists>Y mmean' mvar'.
             batch_norm True X gam bet mmean mvar eps momentum = Inr (Y, mmean', mvar') \<and>
             shape Y = [n, c, h, w] \<and>
             (\<forall>i<n. \<forall>k<c. \<forall>y<h. \<forall>x<w.
                nd_at Y [i, k, y, x]
                = nd_at gam [0, k, 0, 0]
                  * ((nd_at X [i, k, y, x] - batch_mean_4d X k) / sqrt (batch_var_4d X k + eps))
                  + nd_at bet [0, k, 0, 0])))"
proof (intro conjI impI)
  assume a: "shape X = [n, c, h, w] \<and> wf_nd X
      \<and> batch_norm True X gam bet mmean mvar eps momentum = Inr (Y, mmean', mvar')"
  then have "batch_norm True X gam bet mmean mvar eps momentum =
    bind (moving_update momentum mmean (mean_array_4d X)) (\<lambda>mmean'.
    bind (moving_update momentum mvar (var_array_4d X)) (\<lambda>mvar'.
    bind (scale_shift gam bet (standardized_4d X eps)) (\<lambda>Y.
    Inr (Y, mmean', mvar'))))"
    by (intro batch_norm_train_4d_general) simp_all
  with a have "bind (moving_update momentum mmean (mean_array_4d X)) (\<lambda>mmean'.
    bind (moving_update momentum mvar (var_array_4d X)) (\<lambda>mvar'.
    bind (scale_shift gam bet (standardized_4d X eps)) (\<lambda>Y.
    Inr (Y, mmean', mvar')))) = Inr (Y, mmean', mvar')"
    by simp
  then show "scale_shift gam bet (standardized_4d X eps) = Inr Y"
    by (simp only: bind_Inr_3)
next
  assume "shape X = [n, c, h, w] \<and> wf_nd X \<and> shape gam = [1, c, 1, 1] \<and> wf_nd gam
        \<and> shape bet = [1, c, 1, 1] \<and> wf_nd bet
        \<and> shape mmean = [1, c, 1, 1] \<and> wf_nd mmean \<and> shape mvar = [1, c, 1, 1] \<and> wf_nd mvar"
  then have "batch_norm True X gam bet mmean mvar eps momentum =
    Inr (tabulate [n, c, h, w] (\<lambda>idx. nd_at gam [0, idx ! 1, 0, 0]
             * ((nd_at X idx - batch_mean_4d X (idx ! 1)) / sqrt (batch_var_4d X (idx ! 1) + eps))
             + nd_at bet [0, idx ! 1, 0, 0]),
         tabulate [1, c, 1, 1] (\<lambda>idx. momentum * nd_at mmean idx
             + (1 - momentum) * batch_mean_4d X (idx ! 1)),
         tabulate [1, c, 1, 1] (\<lambda>idx. momentum * nd_at mvar idx
             + (1 - momentum) * batch_var_4d X (idx ! 1)))"
    by (intro batch_norm_train_4d) simp_all
  then show "\<exists>Y mmean' mvar'.
             batch_norm True X gam bet mmean mvar eps momentum = Inr (Y, mmean', mvar') \<and>
             shape Y = [n, c, h, w] \<and>
             (\<forall>i<n. \<forall>k<c. \<forall>y<h. \<forall>x<w.
                nd_at Y [i, k, y, x]
                = nd_at gam [0, k, 0, 0]
                  * ((nd_at X [i, k, y, x] - batch_mean_4d X k) / sqrt (batch_var_4d X k + eps))
                  + nd_at bet [0, k, 0, 0])"
    by (simp add: nd_at_tabulate)
qed

text \<open>
  The amended C4 on the batch of the counterexample.
\<close>

theorem batch_norm_training_4d_witness:
  "batch_norm True (NDArray [2, 1, 1, 2] [0, 2, 0, 2]) (NDArray [1, 1, 1, 1] [1])
       (NDArray [1, 1, 1, 1] [0]) (NDArray [1, 1, 1, 1] [0]) (NDArray [1, 1, 1, 1] [0]) 3 (9 / 10)
     = Inr (NDArray [2, 1, 1, 2] [- 1 / 2, 1 / 2, - 1 / 2, 1 / 2],
            NDArray [1, 1, 1, 1] [1 / 10], NDArray [1, 1, 1, 1] [1 / 10])
   \<and> scale_shift (NDArray [1, 1, 1, 1] [1]) (NDArray [1, 1, 1, 1] [0])
        (standardized_4d (NDArray [2, 1, 1, 2] [0, 2, 0, 2]) 3)
     = Inr (NDArray [2, 1, 1, 2] [- 1 / 2, 1 / 2, - 1 / 2, 1 / 2])
   \<and> (\<exists>Y mmean' mvar'.
     batch_norm True (NDArray [2, 1, 1, 2] [0, 2, 0, 2]) (NDArray [1, 1, 1, 1] [1])
       (NDArray [1, 1, 1, 1] [0]) (NDArray [1, 1, 1, 1] [0]) (NDArray [1, 1, 1, 1] [0]) 3 (9 / 10)
     = Inr (Y, mmean', mvar') \<and>
     shape Y = [2, 1, 1, 2] \<and> nd_at Y [0, 0, 0, 0] = - 1 / 2 \<and> nd_at Y [1, 0, 0, 1] = 1 / 2)"
proof -
  let ?X = "NDArray [2, 1, 1, 2] [0, 2, 0, 2]"
  let ?g = "NDArray [1, 1, 1, 1] [1]"
  let ?z = "NDArray [1, 1, 1, 1] [0]"
  let ?Y = "NDArray [2, 1, 1, 2] [- 1 / 2, 1 / 2, - 1 / 2, 1 / 2]"
  let ?t = "NDArray [1, 1, 1, 1] [1 / 10]"
  note gen = batch_norm_training_4d [THEN conjunct1, rule_format]
  note lay = batch_norm_training_4d [THEN conjunct2, rule_format]
  have r: "batch_norm True ?X ?g ?z ?z ?z 3 (9 / 10) = Inr (?Y, ?t, ?t)"
    by (simp add: batch_norm_def nd_eval)
  have g: "scale_shift ?g ?z (standardized_4d ?X 3) = Inr ?Y"
    using gen [of ?X 2 1 1 2 ?g ?z ?z ?z 3 "9 / 10" ?Y ?t ?t] r
    by (simp add: wf_nd_def)
  from lay [of ?X 2 1 1 2 ?g ?z ?z ?z 3 "9 / 10"]
  obtain Y mmean' mvar' where
    y: "batch_norm True ?X ?g ?z ?z ?z 3 (9 / 10) = Inr (Y, mmean', mvar')"
      "shape Y = [2, 1, 1, 2]"
    and e: "\<forall>i<2. \<forall>k<1. \<forall>y<1. \<forall>x<2. nd_at Y [i, k, y, x]
              = nd_at ?g [0, k, 0, 0]
                * ((nd_at ?X [i, k, y, x] - batch_mean_4d ?X k) / sqrt (batch_var_4d ?X k + 3))
                + nd_at ?z [0, k, 0, 0]"
    by (auto simp: wf_nd_def)
  have "nd_at Y [0, 0, 0, 0] = - 1 / 2" "nd_at Y [1, 0, 0, 1] = 1 / 2"
    using e [rule_format, of 0 0 0 0] e [rule_format, of 1 0 0 1]
    by (simp_all add: batch_var_4d_def batch_mean_4d_def nd_at_def sum_lessThan_2)
  with y r g show ?thesis by blast
qed










text \<open>
  C8. In training mode, whenever \<open>batch_norm\<close> returns on a 2-D or 4-D input, the moving
  averages it returns are \<open>momentum * moving_mean + (1 - momentum) * mean\<close> and
  \<open>momentum * moving_var + (1 - momentum) * var\<close> with the batch mean and variance; for the
  layer's shapes it does return, and the formula holds entry by entry.
  \<open>BatchNorm.forward\<close> calls \<open>batch_norm\<close> with \<open>eps = 1e-5\<close> and \<open>momentum = 0.9\<close> on the
  layer's own parameters and averages, returns its \<open>Y\<close> and stores the two returned
  averages in the layer; a failure of \<open>batch_norm\<close> is the failure of \<open>forward\<close>.
\<close>

theorem moving_average_update:
  "(shape X = [n, d] \<and> wf_nd X
      \<and> batch_norm True X gam bet mmean mvar eps momentum = Inr (Y, mmean', mvar')
      \<longrightarrow> moving_update momentum mmean (mean_array_2d X) = Inr mmean'
        \<and> moving_update momentum mvar (var_array_2d X) = Inr mvar')
   \<and> (shape X = [n, c, h, w] \<and> wf_nd X
      \<and> batch_norm True X gam bet mmean mvar eps momentum = Inr (Y, mmean', mvar')
      \<longrightarrow> moving_update momentum mmean (mean_array_4d X) = Inr mmean'
        \<and> moving_update momentum mvar (var_array_4d X) = Inr mvar')
   \<and> (shape X = [n, d] \<and> wf_nd X \<and> shape gam = [1, d] \<and> wf_nd gam \<and> shape bet = [1, d] \<and> wf_nd bet
        \<and> shape mmean = [1, d] \<and> wf_nd mmean \<and> shape mvar = [1, d] \<and> wf_nd mvar
      \<longrightarrow> (\<exists>Y mmean' mvar'.
             batch_norm True X gam bet mmean mvar eps momentum = Inr (Y, mmean', mvar') \<and>
             shape mmean' = [1, d] \<and> shape mvar' = [1, d] \<and>
             (\<forall>j<d. nd_at mmean' [0, j]
                     = momentum * nd_at mmean [0, j] + (1 - momentum) * batch_mean_2d X j) \<and>
             (\<forall>j<d. nd_at mvar' [0, j]
                     = momentum * nd_at mvar [0, j] + (1 - momentum) * batch_var_2d X j)))
   \<and> (shape X = [n, c, h, w] \<and> wf_nd X \<and> shape gam = [1, c, 1, 1] \<and> wf_nd gam
        \<and> shape bet = [1, c, 1, 1] \<and> wf_nd bet
        \<and> shape mmean = [1, c, 1, 1] \<and> wf_nd mmean \<and> shape mvar = [1, c, 1, 1] \<and> wf_nd mvar
      \<longrightarrow> (\<exists>Y mmean' mvar'.
             batch_norm True X gam bet mmean mvar eps momentum = Inr (Y, mmean', mvar') \<and>
             shape mmean' = [1, c, 1, 1] \<and> shape mvar' = [1, c, 1, 1] \<and>
             (\<forall>k<c. nd_at mmean' [0, k, 0, 0]
                     = momentum * nd_at mmean [0, k, 0, 0] + (1 - momentum) * batch_mean_4d X k) \<and>
             (\<forall>k<c. nd_at mvar' [0, k, 0, 0]
                     = momentum * nd_at mvar [0, k, 0, 0] + (1 - momentum) * batch_var_4d X k)))
   \<and> (BatchNorm_forward training self X = Inr (Y, self')
        \<longleftrightarrow> (\<exists>mmean' mvar'.
               batch_norm training X (gamma self) (beta self) (moving_mean self) (moving_var self)
                 (1 / 100000) (9 / 10) = Inr (Y, mmean', mvar') \<and>
               self' = self\<lparr>moving_mean := mmean', moving_var := mvar'\<rparr>))
   \<and> (BatchNorm_forward training self X = Inl e
        \<longleftrightarrow> batch_norm training X (gamma self) (beta self) (moving_mean self) (moving_var self)
                 (1 / 100000) (9 / 10) = Inl e)"
proof (intro conjI impI)
  assume a: "shape X = [n, d] \<and> wf_nd X
      \<and> batch_norm True X gam bet mmean mvar eps momentum = Inr (Y, mmean', mvar')"
  then have "batch_norm True X gam bet mmean mvar eps momentum =
    bind (moving_update momentum mmean (mean_array_2d X)) (\<lambda>mmean'.
    bind (moving_update momentum mvar (var_array_2d X)) (\<lambda>mvar'.
    bind (scale_shift gam bet (standardized_2d X eps)) (\<lambda>Y.
    Inr (Y, mmean', mvar'))))"
    by (intro batch_norm_train_2d_general) simp_all
  with a have "bind (moving_update momentum mmean (mean_array_2d X)) (\<lambda>mmean'.
    bind (moving_update momentum mvar (var_array_2d X)) (\<lambda>mvar'.
    bind (scale_shift gam bet (standardized_2d X eps)) (\<lambda>Y.
    Inr (Y, mmean', mvar')))) = Inr (Y, mmean', mvar')"
    by simp
  then show "moving_update momentum mmean (mean_array_2d X) = Inr mmean'"
    "moving_update momentum mvar (var_array_2d X) = Inr mvar'"
    by (simp_all only: bind_Inr_3)
next
  assume a: "shape X = [n, c, h, w] \<and> wf_nd X
      \<and> batch_norm True X gam bet mmean mvar eps momentum = Inr (Y, mmean', mvar')"
  then have "batch_norm True X gam bet mmean mvar eps momentum =
    bind (moving_update momentum mmean (mean_array_4d X)) (\<lambda>mmean'.
    bind (moving_update momentum mvar (var_array_4d X)) (\<lambda>mvar'.
    bind (scale_shift gam bet (standardized_4d X eps)) (\<lambda>Y.
    Inr (Y, mmean', mvar'))))"
    by (intro batch_norm_train_4d_general) simp_all
  with a have "bind (moving_update momentum mmean (mean_array_4d X)) (\<lambda>mmean'.
    bind (moving_update momentum mvar (var_array_4d X)) (\<lambda>mvar'.
    bind (scale_shift gam bet (standardized_4d X eps)) (\<lambda>Y.
    Inr (Y, mmean', mvar')))) = Inr (Y, mmean', mvar')"
    by simp
  then show "moving_update momentum mmean (mean_array_4d X) = Inr mmean'"
    "moving_update momentum mvar (var_array_4d X) = Inr mvar'"
    by (simp_all only: bind_Inr_3)
next
  assume "shape X = [n, d] \<and> wf_nd X \<and> shape gam = [1, d] \<and> wf_nd gam \<and> shape bet = [1, d] \<and> wf_nd bet
        \<and> shape mmean = [1, d] \<and> wf_nd mmean \<and> shape mvar = [1, d] \<and> wf_nd mvar"
  then have "batch_norm True X gam bet mmean mvar eps momentum =
    Inr (tabulate [n, d] (\<lambda>idx. nd_at gam [0, idx ! 1]
             * ((nd_at X idx - batch_mean_2d X (idx ! 1)) / sqrt (batch_var_2d X (idx ! 1) + eps))
             + nd_at bet [0, idx ! 1]),
         tabulate [1, d] (\<lambda>idx. momentum * nd_at mmean idx
             + (1 - momentum) * batch_mean_2d X (idx ! 1)),
         tabulate [1, d] (\<lambda>idx. momentum * nd_at mvar idx
             + (1 - momentum) * batch_var_2d X (idx ! 1)))"
    by (intro batch_norm_train_2d) simp_all
  then show "\<exists>Y mmean' mvar'.
             batch_norm True X gam bet mmean mvar eps momentum = Inr (Y, mmean', mvar') \<and>
             shape mmean' = [1, d] \<and> shape mvar' = [1, d] \<and>
             (\<forall>j<d. nd_at mmean' [0, j]
                     = momentum * nd_at mmean [0, j] + (1 - momentum) * batch_mean_2d X j) \<and>
             (\<forall>j<d. nd_at mvar' [0, j]
                     = momentum * nd_at mvar [0, j] + (1 - momentum) * batch_var_2d X j)"
    by (simp add: nd_at_tabulate)
next
  assume "shape X = [n, c, h, w] \<and> wf_nd X \<and> shape gam = [1, c, 1, 1] \<and> wf_nd gam
        \<and> shape bet = [1, c, 1, 1] \<and> wf_nd bet
        \<and> shape mmean = [1, c, 1, 1] \<and> wf_nd mmean \<and> shape mvar = [1, c, 1, 1] \<and> wf_nd mvar"
  then have "batch_norm True X gam bet mmean mvar eps momentum =
    Inr (tabulate [n, c, h, w] (\<lambda>idx. nd_at gam [0, idx ! 1, 0, 0]
             * ((nd_at X idx - batch_mean_4d X (idx ! 1)) / sqrt (batch_var_4d X (idx ! 1) + eps))
             + nd_at bet [0, idx ! 1, 0, 0]),
         tabulate [1, c, 1, 1] (\<lambda>idx. momentum * nd_at mmean idx
             + (1 - momentum) * batch_mean_4d X (idx ! 1)),
         tabulate [1, c, 1, 1] (\<lambda>idx. momentum * nd_at mvar idx
             + (1 - momentum) * batch_var_4d X (idx ! 1)))"
    by (intro batch_norm_train_4d) simp_all
  then show "\<exists>Y mmean' mvar'.
             batch_norm True X gam bet mmean mvar eps momentum = Inr (Y, mmean', mvar') \<and>
             shape mmean' = [1, c, 1, 1] \<and> shape mvar' = [1, c, 1, 1] \<and>
             (\<forall>k<c. nd_at mmean' [0, k, 0, 0]
                     = momentum * nd_at mmean [0, k, 0, 0] + (1 - momentum) * batch_mean_4d X k) \<and>
             (\<forall>k<c. nd_at mvar' [0, k, 0, 0]
                     = momentum * nd_at mvar [0, k, 0, 0] + (1 - momentum) * batch_var_4d X k)"
    by (simp add: nd_at_tabulate)
next
  show "BatchNorm_forward training self X = Inr (Y, self')
        \<longleftrightarrow> (\<exists>mmean' mvar'.
               batch_norm training X (gamma self) (beta self) (moving_mean self) (moving_var self)
                 (1 / 100000) (9 / 10) = Inr (Y, mmean', mvar') \<and>
               self' = self\<lparr>moving_mean := mmean', moving_var := mvar'\<rparr>)"
    by (auto simp: BatchNorm_forward_def split: sum.splits)
next
  show "BatchNorm_forward training self X = Inl e
        \<longleftrightarrow> batch_norm training X (gamma self) (beta self) (moving_mean self) (moving_var self)
                 (1 / 100000) (9 / 10) = Inl e"
    by (auto simp: BatchNorm_forward_def split: sum.splits)
qed

text \<open>
  C8 on a 2-D and a 4-D batch, on a fresh layer, and on a 3-D input that fails.
\<close>

theorem moving_average_update_witness:
  "moving_update (9 / 10) (NDArray [1, 1] [10]) (mean_array_2d (NDArray [2, 1] [1, 3]))
     = Inr (NDArray [1, 1] [46 / 5])
   \<and> moving_update (9 / 10) (NDArray [1, 1] [20]) (var_array_2d (NDArray [2, 1] [1, 3]))
     = Inr (NDArray [1, 1] [181 / 10])
   \<and> moving_update (9 / 10) (NDArray [1, 1, 1, 1] [10])
       (mean_array_4d (NDArray [2, 1, 1, 2] [0, 2, 0, 2]))
     = Inr (NDArray [1, 1, 1, 1] [91 / 10])
   \<and> moving_update (9 / 10) (NDArray [1, 1, 1, 1] [20])
       (var_array_4d (NDArray [2, 1, 1, 2] [0, 2, 0, 2]))
     = Inr (NDArray [1, 1, 1, 1] [181 / 10])
   \<and> (\<exists>Y mmean' mvar'.
      batch_norm True (NDArray [2, 1] [1, 3]) (NDArray [1, 1] [1]) (NDArray [1, 1] [0])
        (NDArray [1, 1] [10]) (NDArray [1, 1] [20]) 3 (9 / 10) = Inr (Y, mmean', mvar') \<and>
      nd_at mmean' [0, 0] = 46 / 5 \<and> nd_at mvar' [0, 0] = 181 / 10)
   \<and> (\<exists>Y mmean' mvar'.
      batch_norm True (NDArray [2, 1, 1, 2] [0, 2, 0, 2]) (NDArray [1, 1, 1, 1] [1])
        (NDArray [1, 1, 1, 1] [0]) (NDArray [1, 1, 1, 1] [10]) (NDArray [1, 1, 1, 1] [20])
        3 (9 / 10) = Inr (Y, mmean', mvar') \<and>
      nd_at mmean' [0, 0, 0, 0] = 91 / 10 \<and> nd_at mvar' [0, 0, 0, 0] = 181 / 10)
   \<and> (\<exists>Y self'.
      BatchNorm_forward True (BatchNorm_init 1 2) (NDArray [2, 1] [1, 3]) = Inr (Y, self') \<and>
      nd_at (moving_mean self') [0, 0] = 1 / 5 \<and> nd_at (moving_var self') [0, 0] = 1 / 10)
   \<and> BatchNorm_forward True (BatchNorm_init 1 2) (NDArray [1, 1, 1] [0]) = Inl AssertionError"
proof -
  let ?X = "NDArray [2, 1] [1, 3]" and ?X4 = "NDArray [2, 1, 1, 2] [0, 2, 0, 2]"
  let ?L = "BatchNorm_init 1 2"
  note g2d = moving_average_update [THEN conjunct1, rule_format]
  note g4d = moving_average_update [THEN conjunct2, THEN conjunct1, rule_format]
  note p2d = moving_average_update [THEN conjunct2, THEN conjunct2, THEN conjunct1, rule_format]
  note p4d = moving_average_update [THEN conjunct2, THEN conjunct2, THEN conjunct2,
      THEN conjunct1, rule_format]
  note fwd = moving_average_update [THEN conjunct2, THEN conjunct2, THEN conjunct2,
      THEN conjunct2, THEN conjunct1]
  note err = moving_average_update [THEN conjunct2, THEN conjunct2, THEN conjunct2,
      THEN conjunct2, THEN conjunct2]
  have r2: "batch_norm True ?X (NDArray [1, 1] [1]) (NDArray [1, 1] [0])
        (NDArray [1, 1] [10]) (NDArray [1, 1] [20]) 3 (9 / 10)
      = Inr (NDArray [2, 1] [- 1 / 2, 1 / 2], NDArray [1, 1] [46 / 5], NDArray [1, 1] [181 / 10])"
    by (simp add: batch_norm_def nd_eval)
  have r4: "batch_norm True ?X4 (NDArray [1, 1, 1, 1] [1])
        (NDArray [1, 1, 1, 1] [0]) (NDArray [1, 1, 1, 1] [10]) (NDArray [1, 1, 1, 1] [20])
        3 (9 / 10)
      = Inr (NDArray [2, 1, 1, 2] [- 1 / 2, 1 / 2, - 1 / 2, 1 / 2],
             NDArray [1, 1, 1, 1] [91 / 10], NDArray [1, 1, 1, 1] [181 / 10])"
    by (simp add: batch_norm_def nd_eval)
  have ga: "moving_update (9 / 10) (NDArray [1, 1] [10]) (mean_array_2d ?X)
        = Inr (NDArray [1, 1] [46 / 5])
      \<and> moving_update (9 / 10) (NDArray [1, 1] [20]) (var_array_2d ?X)
        = Inr (NDArray [1, 1] [181 / 10])"
    using g2d [of ?X 2 1 "NDArray [1, 1] [1]" "NDArray [1, 1] [0]" "NDArray [1, 1] [10]"
        "NDArray [1, 1] [20]" 3 "9 / 10" "NDArray [2, 1] [- 1 / 2, 1 / 2]"
        "NDArray [1, 1] [46 / 5]" "NDArray [1, 1] [181 / 10]"] r2
    by (simp add: wf_nd_def)
  have gb: "moving_update (9 / 10) (NDArray [1, 1, 1, 1] [10]) (mean_array_4d ?X4)
        = Inr (NDArray [1, 1, 1, 1] [91 / 10])
      \<and> moving_update (9 / 10) (NDArray [1, 1, 1, 1] [20]) (var_array_4d ?X4)
        = Inr (NDArray [1, 1, 1, 1] [181 / 10])"
    using g4d [of ?X4 2 1 1 2 "NDArray [1, 1, 1, 1] [1]" "NDArray [1, 1, 1, 1] [0]"
        "NDArray [1, 1, 1, 1] [10]" "NDArray [1, 1, 1, 1] [20]" 3 "9 / 10"
        "NDArray [2, 1, 1, 2] [- 1 / 2, 1 / 2, - 1 / 2, 1 / 2]"
        "NDArray [1, 1, 1, 1] [91 / 10]" "NDArray [1, 1, 1, 1] [181 / 10]"] r4
    by (simp add: wf_nd_def)
  have a: "\<exists>Y mmean' mvar'.
      batch_norm True ?X (NDArray [1, 1] [1]) (NDArray [1, 1] [0])
        (NDArray [1, 1] [10]) (NDArray [1, 1] [20]) 3 (9 / 10) = Inr (Y, mmean', mvar') \<and>
      nd_at mmean' [0, 0] = 46 / 5 \<and> nd_at mvar' [0, 0] = 181 / 10"
  proof -
    from p2d [of ?X 2 1 "NDArray [1, 1] [1]" "NDArray [1, 1] [0]" "NDArray [1, 1] [10]"
        "NDArray [1, 1] [20]" 3 "9 / 10"]
    obtain Y mmean' mvar' where
      r: "batch_norm True ?X (NDArray [1, 1] [1]) (NDArray [1, 1] [0])
        (NDArray [1, 1] [10]) (NDArray [1, 1] [20]) 3 (9 / 10) = Inr (Y, mmean', mvar')"
      and m: "\<forall>j<1. nd_at mmean' [0, j]
                = 9 / 10 * nd_at (NDArray [1, 1] [10]) [0, j] + (1 - 9 / 10) * batch_mean_2d ?X j"
      and v: "\<forall>j<1. nd_at mvar' [0, j]
                = 9 / 10 * nd_at (NDArray [1, 1] [20]) [0, j] + (1 - 9 / 10) * batch_var_2d ?X j"
      by (auto simp: wf_nd_def)
    have "nd_at mmean' [0, 0] = 46 / 5" "nd_at mvar' [0, 0] = 181 / 10"
      using m [rule_format, of 0] v [rule_format, of 0]
      by (simp_all add: batch_var_2d_def batch_mean_2d_def nd_at_def sum_lessThan_2)
    with r show ?thesis by blast
  qed
  have b: "\<exists>Y mmean' mvar'.
      batch_norm True ?X4 (NDArray [1, 1, 1, 1] [1])
        (NDArray [1, 1, 1, 1] [0]) (NDArray [1, 1, 1, 1] [10]) (NDArray [1, 1, 1, 1] [20])
        3 (9 / 10) = Inr (Y, mmean', mvar') \<and>
      nd_at mmean' [0, 0, 0, 0] = 91 / 10 \<and> nd_at mvar' [0, 0, 0, 0] = 181 / 10"
  proof -
    from p4d [of ?X4 2 1 1 2 "NDArray [1, 1, 1, 1] [1]" "NDArray [1, 1, 1, 1] [0]"
        "NDArray [1, 1, 1, 1] [10]" "NDArray [1, 1, 1, 1] [20]" 3 "9 / 10"]
    obtain Y mmean' mvar' where
      r: "batch_norm True ?X4 (NDArray [1, 1, 1, 1] [1])
        (NDArray [1, 1, 1, 1] [0]) (NDArray [1, 1, 1, 1] [10]) (NDArray [1, 1, 1, 1] [20])
        3 (9 / 10) = Inr (Y, mmean', mvar')"
      and m: "\<forall>k<1. nd_at mmean' [0, k, 0, 0]
                = 9 / 10 * nd_at (NDArray [1, 1, 1, 1] [10]) [0, k, 0, 0]
                  + (1 - 9 / 10) * batch_mean_4d ?X4 k"
      and v: "\<forall>k<1. nd_at mvar' [0, k, 0, 0]
                = 9 / 10 * nd_at (NDArray [1, 1, 1, 1] [20]) [0, k, 0, 0]
                  + (1 - 9 / 10) * batch_var_4d ?X4 k"
      by (auto simp: wf_nd_def)
    have "nd_at mmean' [0, 0, 0, 0] = 91 / 10" "nd_at mvar' [0, 0, 0, 0] = 181 / 10"
      using m [rule_format, of 0] v [rule_format, of 0]
      by (simp_all add: batch_var_4d_def batch_mean_4d_def nd_at_def sum_lessThan_2)
    with r show ?thesis by blast
  qed
  have c: "\<exists>Y self'.
      BatchNorm_forward True ?L ?X = Inr (Y, self') \<and>
      nd_at (moving_mean self') [0, 0] = 1 / 5 \<and> nd_at (moving_var self') [0, 0] = 1 / 10"
  proof -
    have L: "gamma ?L = NDArray [1, 1] [1]" "beta ?L = NDArray [1, 1] [0]"
      "moving_mean ?L = NDArray [1, 1] [0]" "moving_var ?L = NDArray [1, 1] [0]"
      by (simp_all add: BatchNorm_init_def Let_def nd_ones_def nd_zeros_def)
    from p2d [of ?X 2 1 "NDArray [1, 1] [1]" "NDArray [1, 1] [0]" "NDArray [1, 1] [0]"
        "NDArray [1, 1] [0]" "1 / 100000" "9 / 10"]
    obtain Y mmean' mvar' where
      r: "batch_norm True ?X (NDArray [1, 1] [1]) (NDArray [1, 1] [0])
        (NDArray [1, 1] [0]) (NDArray [1, 1] [0]) (1 / 100000) (9 / 10) = Inr (Y, mmean', mvar')"
      and m: "\<forall>j<1. nd_at mmean' [0, j]
                = 9 / 10 * nd_at (NDArray [1, 1] [0]) [0, j] + (1 - 9 / 10) * batch_mean_2d ?X j"
      and v: "\<forall>j<1. nd_at mvar' [0, j]
                = 9 / 10 * nd_at (NDArray [1, 1] [0]) [0, j] + (1 - 9 / 10) * batch_var_2d ?X j"
      by (auto simp: wf_nd_def)
    have mv: "nd_at mmean' [0, 0] = 1 / 5" "nd_at mvar' [0, 0] = 1 / 10"
      using m [rule_format, of 0] v [rule_format, of 0]
      by (simp_all add: batch_var_2d_def batch_mean_2d_def nd_at_def sum_lessThan_2)
    have "BatchNorm_forward True ?L ?X = Inr (Y, ?L\<lparr>moving_mean := mmean', moving_var := mvar'\<rparr>)"
      using fwd [of True ?L ?X Y "?L\<lparr>moving_mean := mmean', moving_var := mvar'\<rparr>"] r
      by (simp only: L) blast
    with mv show ?thesis by force
  qed
  have d: "BatchNorm_forward True ?L (NDArray [1, 1, 1] [0]) = Inl AssertionError"
    using err [of True ?L "NDArray [1, 1, 1] [0]" AssertionError]
    by (simp add: batch_norm_def)
  from ga gb a b c d show ?thesis by blast
qed

text \<open>
  C9. \<open>BatchNorm.__init__\<close> gives \<open>gamma\<close> all ones and \<open>beta\<close>, \<open>moving_mean\<close> and \<open>moving_var\<close>
  all zeros, of shape \<open>(1, num_features)\<close> when \<open>num_dims\<close> is 2 and \<open>(1, num_features, 1, 1)\<close> for
  every other \<open>num_dims\<close>; with these parameters the scale-and-shift step returns \<open>X_hat\<close>
  itself.
\<close>

theorem BatchNorm_init_parameters:
  "(num_dims = 2 \<longrightarrow>
      BatchNorm_init num_features num_dims
      = \<lparr>gamma = NDArray [1, num_features] (replicate num_features 1),
         beta = NDArray [1, num_features] (replicate num_features 0),
         moving_mean = NDArray [1, num_features] (replicate num_features 0),
         moving_var = NDArray [1, num_features] (replicate num_features 0)\<rparr>)
   \<and> (num_dims \<noteq> 2 \<longrightarrow>
      BatchNorm_init num_features num_dims
      = \<lparr>gamma = NDArray [1, num_features, 1, 1] (replicate num_features 1),
         beta = NDArray [1, num_features, 1, 1] (replicate num_features 0),
         moving_mean = NDArray [1, num_features, 1, 1] (replicate num_features 0),
         moving_var = NDArray [1, num_features, 1, 1] (replicate num_features 0)\<rparr>)
   \<and> (num_dims = 2 \<and> shape X_hat = [n, num_features] \<and> wf_nd X_hat \<longrightarrow>
      scale_shift (gamma (BatchNorm_init num_features num_dims))
        (beta (BatchNorm_init num_features num_dims)) X_hat = Inr X_hat)
   \<and> (num_dims \<noteq> 2 \<and> shape X_hat = [n, num_features, h, w] \<and> wf_nd X_hat \<longrightarrow>
      scale_shift (gamma (BatchNorm_init num_features num_dims))
        (beta (BatchNorm_init num_features num_dims)) X_hat = Inr X_hat)"
proof (intro conjI impI)
  assume "num_dims = 2"
  then show "BatchNorm_init num_features num_dims
      = \<lparr>gamma = NDArray [1, num_features] (replicate num_features 1),
         beta = NDArray [1, num_features] (replicate num_features 0),
         moving_mean = NDArray [1, num_features] (replicate num_features 0),
         moving_var = NDArray [1, num_features] (replicate num_features 0)\<rparr>"
    by (simp add: BatchNorm_init_def Let_def nd_ones_def nd_zeros_def)
next
  assume "num_dims \<noteq> 2"
  then show "BatchNorm_init num_features num_dims
      = \<lparr>gamma = NDArray [1, num_features, 1, 1] (replicate num_features 1),
         beta = NDArray [1, num_features, 1, 1] (replicate num_features 0),
         moving_mean = NDArray [1, num_features, 1, 1] (replicate num_features 0),
         moving_var = NDArray [1, num_features, 1, 1] (replicate num_features 0)\<rparr>"
    by (simp add: BatchNorm_init_def Let_def nd_ones_def nd_zeros_def)
next
  assume a: "num_dims = 2 \<and> shape X_hat = [n, num_features] \<and> wf_nd X_hat"
  then have "gamma (BatchNorm_init num_features num_dims) = nd_ones [1, num_features]"
    "beta (BatchNorm_init num_features num_dims) = nd_zeros [1, num_features]"
    by (simp_all add: BatchNorm_init_def Let_def)
  with a show "scale_shift (gamma (BatchNorm_init num_features num_dims))
        (beta (BatchNorm_init num_features num_dims)) X_hat = Inr X_hat"
    by (simp only: scale_shift_identity_2d)
next
  assume a: "num_dims \<noteq> 2 \<and> shape X_hat = [n, num_features, h, w] \<and> wf_nd X_hat"
  then have "gamma (BatchNorm_init num_features num_dims) = nd_ones [1, num_features, 1, 1]"
    "beta (BatchNorm_init num_features num_dims) = nd_zeros [1, num_features, 1, 1]"
    by (simp_all add: BatchNorm_init_def Let_def)
  with a show "scale_shift (gamma (BatchNorm_init num_features num_dims))
        (beta (BatchNorm_init num_features num_dims)) X_hat = Inr X_hat"
    by (simp only: scale_shift_identity_4d)
qed

text \<open>
  C9 for three features with \<open>num_dims\<close> 2, 4 and 7, and the identity on two arrays.
\<close>

theorem BatchNorm_init_parameters_witness:
  "BatchNorm_init 3 2
     = \<lparr>gamma = NDArray [1, 3] [1, 1, 1], beta = NDArray [1, 3] [0, 0, 0],
        moving_mean = NDArray [1, 3] [0, 0, 0], moving_var = NDArray [1, 3] [0, 0, 0]\<rparr>
   \<and> BatchNorm_init 3 4
     = \<lparr>gamma = NDArray [1, 3, 1, 1] [1, 1, 1], beta = NDArray [1, 3, 1, 1] [0, 0, 0],
        moving_mean = NDArray [1, 3, 1, 1] [0, 0, 0], moving_var = NDArray [1, 3, 1, 1] [0, 0, 0]\<rparr>
   \<and> BatchNorm_init 3 7
     = \<lparr>gamma = NDArray [1, 3, 1, 1] [1, 1, 1], beta = NDArray [1, 3, 1, 1] [0, 0, 0],
        moving_mean = NDArray [1, 3, 1, 1] [0, 0, 0], moving_var = NDArray [1, 3, 1, 1] [0, 0, 0]\<rparr>
   \<and> scale_shift (gamma (BatchNorm_init 3 2)) (beta (BatchNorm_init 3 2))
        (NDArray [2, 3] [1, 2, 3, 4, 5, 6]) = Inr (NDArray [2, 3] [1, 2, 3, 4, 5, 6])
   \<and> scale_shift (gamma (BatchNorm_init 1 4)) (beta (BatchNorm_init 1 4))
        (NDArray [1, 1, 2, 2] [1, 2, 3, 4]) = Inr (NDArray [1, 1, 2, 2] [1, 2, 3, 4])"
proof -
  let ?X = "NDArray [2, 3] [1, 2, 3, 4, 5, 6]" and ?X4 = "NDArray [1, 1, 2, 2] [1, 2, 3, 4]"
  have rep: "replicate 3 x = [x, x, x]" for x :: real
    by (simp add: numeral_3_eq_3)
  have a: "BatchNorm_init 3 2
     = \<lparr>gamma = NDArray [1, 3] [1, 1, 1], beta = NDArray [1, 3] [0, 0, 0],
        moving_mean = NDArray [1, 3] [0, 0, 0], moving_var = NDArray [1, 3] [0, 0, 0]\<rparr>"
    using BatchNorm_init_parameters [of 2 3 ?X 2 0 0, THEN conjunct1]
    by (simp add: rep)
  have b: "BatchNorm_init 3 4
     = \<lparr>gamma = NDArray [1, 3, 1, 1] [1, 1, 1], beta = NDArray [1, 3, 1, 1] [0, 0, 0],
        moving_mean = NDArray [1, 3, 1, 1] [0, 0, 0], moving_var = NDArray [1, 3, 1, 1] [0, 0, 0]\<rparr>"
    using BatchNorm_init_parameters [of 4 3 ?X 2 0 0, THEN conjunct2, THEN conjunct1]
    by (simp add: rep)
  have c: "BatchNorm_init 3 7
     = \<lparr>gamma = NDArray [1, 3, 1, 1] [1, 1, 1], beta = NDArray [1, 3, 1, 1] [0, 0, 0],
        moving_mean = NDArray [1, 3, 1, 1] [0, 0, 0], moving_var = NDArray [1, 3, 1, 1] [0, 0, 0]\<rparr>"
    using BatchNorm_init_parameters [of 7 3 ?X 2 0 0, THEN conjunct2, THEN conjunct1]
    by (simp add: rep)
  have d: "scale_shift (gamma (BatchNorm_init 3 2)) (beta (BatchNorm_init 3 2)) ?X = Inr ?X"
    using BatchNorm_init_parameters [of 2 3 ?X 2 0 0, THEN conjunct2, THEN conjunct2, THEN conjunct1]
    by (simp add: wf_nd_def)
  have e: "scale_shift (gamma (BatchNorm_init 1 4)) (beta (BatchNorm_init 1 4)) ?X4 = Inr ?X4"
    using BatchNorm_init_parameters [of 4 1 ?X4 1 2 2, THEN conjunct2, THEN conjunct2, THEN conjunct2]
    by (simp add: wf_nd_def)
  from a b c d e show ?thesis by blast
qed

end
